theory Spec2Isabelle
  imports Main
begin

section \<open>Go string primitives used by the extractors\<close>

text \<open>
  A Go string is a sequence of bytes; it is modelled as a \<open>char list\<close> (one \<open>char\<close> per
  byte). Positions are byte offsets. The functions below follow package \<open>strings\<close>:
  a search that returns \<open>-1\<close> in Go returns \<open>None\<close> here.
\<close>

definition HasPrefix :: "string \<Rightarrow> string \<Rightarrow> bool" where
  "HasPrefix s p = (take (length p) s = p)"

definition HasSuffix :: "string \<Rightarrow> string \<Rightarrow> bool" where
  "HasSuffix s p = (length p \<le> length s \<and> drop (length s - length p) s = p)"

definition TrimPrefix :: "string \<Rightarrow> string \<Rightarrow> string" where
  "TrimPrefix s p = (if HasPrefix s p then drop (length p) s else s)"

definition TrimSuffix :: "string \<Rightarrow> string \<Rightarrow> string" where
  "TrimSuffix s p = (if HasSuffix s p then take (length s - length p) s else s)"

text \<open>\<open>strings.Index\<close>: offset of the first occurrence of \<open>sub\<close>.\<close>

fun Index :: "string \<Rightarrow> string \<Rightarrow> nat option" where
  "Index [] sub = (if sub = [] then Some 0 else None)"
| "Index (c # cs) sub =
     (if HasPrefix (c # cs) sub then Some 0
      else (case Index cs sub of None \<Rightarrow> None | Some i \<Rightarrow> Some (Suc i)))"

text \<open>\<open>strings.LastIndex\<close>: offset of the last occurrence of \<open>sub\<close>.\<close>

fun LastIndex :: "string \<Rightarrow> string \<Rightarrow> nat option" where
  "LastIndex [] sub = (if sub = [] then Some 0 else None)"
| "LastIndex (c # cs) sub =
     (case LastIndex cs sub of
        Some i \<Rightarrow> Some (Suc i)
      | None \<Rightarrow> (if HasPrefix (c # cs) sub then Some 0 else None))"

definition Contains :: "string \<Rightarrow> string \<Rightarrow> bool" where
  "Contains s sub = (Index s sub \<noteq> None)"

text \<open>\<open>strings.Count\<close> for a one-byte separator.\<close>

definition Count :: "string \<Rightarrow> char \<Rightarrow> nat" where
  "Count s c = length (filter (\<lambda>x. x = c) s)"

text \<open>\<open>strings.Split\<close> for a one-byte separator: \<open>Split "" sep\<close> is the list holding one
  empty string.\<close>

fun Split :: "string \<Rightarrow> char \<Rightarrow> string list" where
  "Split [] sep = [[]]"
| "Split (c # cs) sep =
     (if c = sep then [] # Split cs sep
      else (case Split cs sep of [] \<Rightarrow> [[c]] | x # xs \<Rightarrow> (c # x) # xs))"

text \<open>\<open>strings.SplitN(s, sep, 2)\<close> for a one-byte separator: cut at the first one.\<close>

definition SplitN2 :: "string \<Rightarrow> char \<Rightarrow> string list" where
  "SplitN2 s sep =
     (if sep \<in> set s
      then [takeWhile (\<lambda>c. c \<noteq> sep) s, tl (dropWhile (\<lambda>c. c \<noteq> sep) s)]
      else [s])"

text \<open>\<open>strings.Join\<close> for a one-byte separator.\<close>

fun Join :: "string list \<Rightarrow> char \<Rightarrow> string" where
  "Join [] sep = []"
| "Join [s] sep = s"
| "Join (s # t # ss) sep = s @ sep # Join (t # ss) sep"

text \<open>
  White space as \<open>unicode.IsSpace\<close> sees it on UTF-8 bytes: the six ASCII characters,
  U+0085 and U+00A0 (two bytes), and U+1680, U+2000..U+200A, U+2028, U+2029, U+202F,
  U+205F, U+3000 (three bytes). \<open>spaceWidth s\<close> is the width of the white-space rune
  that starts \<open>s\<close>, or 0.
\<close>

definition asciiSpace :: "char \<Rightarrow> bool" where
  "asciiSpace c = (c = CHR 0x09 \<or> c = CHR 0x0A \<or> c = CHR 0x0B \<or> c = CHR 0x0C
                    \<or> c = CHR 0x0D \<or> c = CHR 0x20)"

definition space3 :: "char \<Rightarrow> char \<Rightarrow> char \<Rightarrow> bool" where
  "space3 a b c =
     ((a = CHR 0xE1 \<and> b = CHR 0x9A \<and> c = CHR 0x80)
      \<or> (a = CHR 0xE2 \<and> b = CHR 0x80
          \<and> (((0x80 :: nat) \<le> of_char c \<and> (of_char c :: nat) \<le> 0x8A)
               \<or> c = CHR 0xA8 \<or> c = CHR 0xA9 \<or> c = CHR 0xAF))
      \<or> (a = CHR 0xE2 \<and> b = CHR 0x81 \<and> c = CHR 0x9F)
      \<or> (a = CHR 0xE3 \<and> b = CHR 0x80 \<and> c = CHR 0x80))"

definition space2 :: "char \<Rightarrow> char \<Rightarrow> bool" where
  "space2 a b = (a = CHR 0xC2 \<and> (b = CHR 0x85 \<or> b = CHR 0xA0))"

fun spaceWidth :: "string \<Rightarrow> nat" where
  "spaceWidth [] = 0"
| "spaceWidth [a] = (if asciiSpace a then 1 else 0)"
| "spaceWidth [a, b] = (if asciiSpace a then 1 else if space2 a b then 2 else 0)"
| "spaceWidth (a # b # c # cs) =
     (if asciiSpace a then 1 else if space2 a b then 2 else if space3 a b c then 3 else 0)"

text \<open>The same, read from the end of the (reversed) string.\<close>

fun spaceWidthRev :: "string \<Rightarrow> nat" where
  "spaceWidthRev [] = 0"
| "spaceWidthRev [a] = (if asciiSpace a then 1 else 0)"
| "spaceWidthRev [a, b] = (if asciiSpace a then 1 else if space2 b a then 2 else 0)"
| "spaceWidthRev (a # b # c # cs) =
     (if asciiSpace a then 1 else if space2 b a then 2 else if space3 c b a then 3 else 0)"

lemma spaceWidth_le: "spaceWidth s \<le> length s"
  by (induction s rule: spaceWidth.induct) auto

lemma spaceWidthRev_le: "spaceWidthRev s \<le> length s"
  by (induction s rule: spaceWidthRev.induct) auto

function trimLeftSpace :: "string \<Rightarrow> string" where
  "trimLeftSpace s = (if spaceWidth s = 0 then s else trimLeftSpace (drop (spaceWidth s) s))"
  by pat_completeness auto
termination
proof (relation "measure length")
  fix s :: string
  assume "spaceWidth s \<noteq> 0"
  moreover have "spaceWidth s \<le> length s" by (rule spaceWidth_le)
  ultimately show "(drop (spaceWidth s) s, s) \<in> measure length" by simp
qed simp

function trimLeftSpaceRev :: "string \<Rightarrow> string" where
  "trimLeftSpaceRev s =
     (if spaceWidthRev s = 0 then s else trimLeftSpaceRev (drop (spaceWidthRev s) s))"
  by pat_completeness auto
termination
proof (relation "measure length")
  fix s :: string
  assume "spaceWidthRev s \<noteq> 0"
  moreover have "spaceWidthRev s \<le> length s" by (rule spaceWidthRev_le)
  ultimately show "(drop (spaceWidthRev s) s, s) \<in> measure length" by simp
qed simp

declare trimLeftSpace.simps [simp del] trimLeftSpaceRev.simps [simp del]

text \<open>\<open>strings.TrimSpace\<close>: white space removed at both ends.\<close>

definition TrimSpace :: "string \<Rightarrow> string" where
  "TrimSpace s = rev (trimLeftSpaceRev (rev (trimLeftSpace s)))"

text \<open>\<open>strings.TrimLeft(s, " \t")\<close>: leading blanks and tabs removed.\<close>

definition TrimLeftBlank :: "string \<Rightarrow> string" where
  "TrimLeftBlank s = dropWhile (\<lambda>c. c = CHR '' '' \<or> c = CHR 0x09) s"

section \<open>The entity model\<close>

record Variable =
  vName :: string
  vType :: string
  vScope :: string
  vLine :: nat

record Function =
  fnName :: string
  fnArgs :: "Variable list"
  fnReturns :: "string list"
  fnReceiver :: string
  fnLine :: nat
  fnCalls :: "string list"

datatype ControlFlow = ControlFlow (cfType: string) (cfLine: nat) (cfChildren: "ControlFlow list")

record Struct =
  stName :: string
  stFields :: "Variable list"
  stMethods :: "Function list"
  stLine :: nat

text \<open>\<open>appendIfNotExists\<close>: append unless the item is already there.\<close>

definition appendIfNotExists :: "string list \<Rightarrow> string \<Rightarrow> string list" where
  "appendIfNotExists slice item = (if item \<in> set slice then slice else slice @ [item])"

definition countLines :: "string \<Rightarrow> nat" where
  "countLines text = 1 + Count text (CHR 0x0A)"

section \<open>Regular expressions\<close>

text \<open>
  The extractors find their patterns with Go's package \<open>regexp\<close>. The package is
  modelled by a small matcher with the same preference order (leftmost match, and at
  one start the match a backtracking search finds first): \<open>rmatch r st\<close> lists, in
  order of preference, the states in which \<open>r\<close> can end when started in \<open>st\<close>; the head
  of the list is the match. A state is the offset reached, whether it is the start of a
  line, the text that remains, and the capture groups set so far. The matcher works on
  bytes. The patterns of the source start with an ASCII character and what follows a
  class that takes non-ASCII bytes is an ASCII character, so the matches are those of
  the rune-based matcher of Go. Under the flag \<open>(?i)\<close> a letter matches both of its cases,
  and \<open>s\<close> and \<open>k\<close> also match U+017F and U+212A, the two other characters that fold to an
  ASCII letter.
\<close>

datatype regex =
    Lit char
  | LitI char
  | Sat "char \<Rightarrow> bool"
  | Eps
  | BeginLine
  | Seq regex regex
  | Alt regex regex
  | Opt regex
  | Star regex
  | Plus regex
  | StarLazy regex
  | Group nat regex

type_synonym captures = "(nat \<times> nat \<times> nat) list"
type_synonym mstate = "nat \<times> bool \<times> string \<times> captures"

definition NL :: char where
  "NL = CHR 0x0A"

definition lowerByte :: "char \<Rightarrow> char" where
  "lowerByte c = (if (65 :: nat) \<le> of_char c \<and> (of_char c :: nat) \<le> 90
                  then char_of (of_char c + (32 :: nat)) else c)"

text \<open>The classes of RE2: \<open>\s\<close> is \<open>[\t\n\f\r ]\<close>, \<open>\w\<close> is \<open>[0-9A-Za-z_]\<close>, and \<open>.\<close> is
  any character but the newline.\<close>

definition reSpace :: "char \<Rightarrow> bool" where
  "reSpace c = (c = CHR 0x09 \<or> c = CHR 0x0A \<or> c = CHR 0x0C \<or> c = CHR 0x0D \<or> c = CHR 0x20)"

definition reWord :: "char \<Rightarrow> bool" where
  "reWord c = (((48 :: nat) \<le> of_char c \<and> (of_char c :: nat) \<le> 57)
               \<or> ((65 :: nat) \<le> of_char c \<and> (of_char c :: nat) \<le> 90)
               \<or> ((97 :: nat) \<le> of_char c \<and> (of_char c :: nat) \<le> 122)
               \<or> c = CHR ''_'')"

definition reDot :: "char \<Rightarrow> bool" where
  "reDot c = (c \<noteq> NL)"

fun consume :: "(char \<Rightarrow> bool) \<Rightarrow> mstate \<Rightarrow> mstate list" where
  "consume P (p, b, [], caps) = []"
| "consume P (p, b, c # cs, caps) = (if P c then [(Suc p, c = NL, cs, caps)] else [])"

fun consumeBytes :: "string \<Rightarrow> mstate \<Rightarrow> mstate list" where
  "consumeBytes [] st = [st]"
| "consumeBytes (x # xs) st = concat (map (consumeBytes xs) (consume (\<lambda>c. c = x) st))"

text \<open>The UTF-8 bytes of U+017F and of U+212A, and the characters outside ASCII that
  match a letter under \<open>(?i)\<close>.\<close>

definition longS :: string where
  "longS = [CHR 0xC5, CHR 0xBF]"

definition kelvin :: string where
  "kelvin = [CHR 0xE2, CHR 0x84, CHR 0xAA]"

definition foldRunes :: "char \<Rightarrow> string list" where
  "foldRunes c =
     (if lowerByte c = CHR ''s'' then [longS] else if lowerByte c = CHR ''k'' then [kelvin] else [])"

text \<open>Repetition: \<open>fuel\<close> bounds the number of rounds; each round must consume a byte, so
  one more than the length of the remaining text is always enough.\<close>

primrec iterGreedy :: "nat \<Rightarrow> (mstate \<Rightarrow> mstate list) \<Rightarrow> mstate \<Rightarrow> mstate list" where
  "iterGreedy 0 f st = [st]"
| "iterGreedy (Suc n) f st =
     concat (map (\<lambda>st'. if fst st < fst st' then iterGreedy n f st' else []) (f st)) @ [st]"

primrec iterLazy :: "nat \<Rightarrow> (mstate \<Rightarrow> mstate list) \<Rightarrow> mstate \<Rightarrow> mstate list" where
  "iterLazy 0 f st = [st]"
| "iterLazy (Suc n) f st =
     st # concat (map (\<lambda>st'. if fst st < fst st' then iterLazy n f st' else []) (f st))"

definition setCapture :: "nat \<Rightarrow> nat \<Rightarrow> mstate \<Rightarrow> mstate" where
  "setCapture g start st =
     (case st of (p, b, cs, caps) \<Rightarrow> (p, b, cs, (g, start, p) # filter (\<lambda>e. fst e \<noteq> g) caps))"

definition fuelOf :: "mstate \<Rightarrow> nat" where
  "fuelOf st = Suc (length (fst (snd (snd st))))"

fun rmatch :: "regex \<Rightarrow> mstate \<Rightarrow> mstate list" where
  "rmatch (Lit c) st = consume (\<lambda>x. x = c) st"
| "rmatch (LitI c) st =
     consume (\<lambda>x. lowerByte x = lowerByte c) st
       @ concat (map (\<lambda>w. consumeBytes w st) (foldRunes c))"
| "rmatch (Sat P) st = consume P st"
| "rmatch Eps st = [st]"
| "rmatch BeginLine st = (if fst (snd st) then [st] else [])"
| "rmatch (Seq r1 r2) st = concat (map (rmatch r2) (rmatch r1 st))"
| "rmatch (Alt r1 r2) st = rmatch r1 st @ rmatch r2 st"
| "rmatch (Opt r) st = rmatch r st @ [st]"
| "rmatch (Star r) st = iterGreedy (fuelOf st) (rmatch r) st"
| "rmatch (Plus r) st = concat (map (\<lambda>st'. iterGreedy (fuelOf st') (rmatch r) st') (rmatch r st))"
| "rmatch (StarLazy r) st = iterLazy (fuelOf st) (rmatch r) st"
| "rmatch (Group g r) st = map (setCapture g (fst st)) (rmatch r st)"

text \<open>A literal string, and a literal string under the flag \<open>(?i)\<close>.\<close>

fun lits :: "string \<Rightarrow> regex" where
  "lits [] = Eps"
| "lits [c] = Lit c"
| "lits (c # cs) = Seq (Lit c) (lits cs)"

fun litsI :: "string \<Rightarrow> regex" where
  "litsI [] = Eps"
| "litsI [c] = LitI c"
| "litsI (c # cs) = Seq (LitI c) (litsI cs)"

fun seqs :: "regex list \<Rightarrow> regex" where
  "seqs [] = Eps"
| "seqs [r] = r"
| "seqs (r # rs) = Seq r (seqs rs)"

text \<open>A class that holds the ASCII letters, under the flag \<open>(?i)\<close>: the bytes of the class,
  U+017F and U+212A.\<close>

definition SatI :: "(char \<Rightarrow> bool) \<Rightarrow> regex" where
  "SatI P = Alt (Sat P) (Alt (lits longS) (lits kelvin))"

text \<open>
  A match is reported as Go reports it: the offsets of the whole match and of each
  group that took part (\<open>-1\<close> in Go for a group that did not; here \<open>None\<close>).
\<close>

record rematch =
  mStart :: nat
  mEnd :: nat
  mGroups :: captures

definition group :: "rematch \<Rightarrow> nat \<Rightarrow> (nat \<times> nat) option" where
  "group m g = map_of (mGroups m) g"

definition matchAt :: "regex \<Rightarrow> nat \<Rightarrow> bool \<Rightarrow> string \<Rightarrow> rematch option" where
  "matchAt r p b cs =
     (case rmatch r (p, b, cs, []) of
        [] \<Rightarrow> None
      | st # _ \<Rightarrow> Some \<lparr>mStart = p, mEnd = fst st, mGroups = snd (snd (snd st))\<rparr>)"

text \<open>\<open>FindStringSubmatchIndex\<close>: the leftmost match in the text that starts at offset \<open>p\<close>.\<close>

fun findFrom :: "regex \<Rightarrow> nat \<Rightarrow> bool \<Rightarrow> string \<Rightarrow> rematch option" where
  "findFrom r p b [] = matchAt r p b []"
| "findFrom r p b (c # cs) =
     (case matchAt r p b (c # cs) of
        Some m \<Rightarrow> Some m
      | None \<Rightarrow> findFrom r (Suc p) (c = NL) cs)"

definition FindSubmatchIndex :: "regex \<Rightarrow> string \<Rightarrow> rematch option" where
  "FindSubmatchIndex r s = findFrom r 0 True s"

text \<open>
  \<open>FindAllStringSubmatchIndex(s, -1)\<close>: successive matches that do not overlap. \<open>nxt\<close> is
  the offset at which the search resumes and \<open>prev\<close> the end of the previous match: an
  empty match right after a match is dropped, and after an empty match the search moves
  on by one byte.
\<close>

fun findAllFrom :: "regex \<Rightarrow> nat \<Rightarrow> bool \<Rightarrow> string \<Rightarrow> nat \<Rightarrow> nat option \<Rightarrow> rematch list" where
  "findAllFrom r p b [] nxt prev =
     (if p < nxt then []
      else (case matchAt r p b [] of
              None \<Rightarrow> []
            | Some m \<Rightarrow> (if prev = Some p then [] else [m])))"
| "findAllFrom r p b (c # cs) nxt prev =
     (if p < nxt then findAllFrom r (Suc p) (c = NL) cs nxt prev
      else (case matchAt r p b (c # cs) of
              None \<Rightarrow> findAllFrom r (Suc p) (c = NL) cs nxt prev
            | Some m \<Rightarrow>
                (if mEnd m = p
                 then (if prev = Some p then [] else [m])
                      @ findAllFrom r (Suc p) (c = NL) cs (Suc p) (Some p)
                 else m # findAllFrom r (Suc p) (c = NL) cs (mEnd m) (Some (mEnd m)))))"

definition FindAllSubmatchIndex :: "regex \<Rightarrow> string \<Rightarrow> rematch list" where
  "FindAllSubmatchIndex r s = findAllFrom r 0 True s 0 None"

text \<open>The text of a Go slice expression \<open>s[i:j]\<close> for offsets in range.\<close>

definition slice :: "string \<Rightarrow> nat \<Rightarrow> nat \<Rightarrow> string" where
  "slice s i j = take (j - i) (drop i s)"

section \<open>Indentation language: argument lists\<close>

text \<open>
  One round of the loop of \<open>parsePythonFunctionArgs\<close>: the piece is trimmed, cut at the
  first \<open>=\<close> and then at the first \<open>:\<close>; an empty piece and a name that starts with
  \<open>*\<close> are skipped.
\<close>

definition pyParamName :: "string \<Rightarrow> string" where
  "pyParamName arg =
     TrimSpace (hd (SplitN2 (TrimSpace (hd (SplitN2 (TrimSpace arg) (CHR ''=''))))
                            (CHR '':'')))"

definition pyParamType :: "string \<Rightarrow> string" where
  "pyParamType arg =
     (let typeHintParts = SplitN2 (TrimSpace (hd (SplitN2 (TrimSpace arg) (CHR ''=''))))
                                  (CHR '':'')
      in if length typeHintParts > 1 then TrimSpace (typeHintParts ! 1) else ''Any'')"

fun parsePythonArgsLoop :: "Variable list \<Rightarrow> string list \<Rightarrow> nat \<Rightarrow> Variable list" where
  "parsePythonArgsLoop args [] lineNumber = args"
| "parsePythonArgsLoop args (arg # argsList) lineNumber =
     (if TrimSpace arg = [] then parsePythonArgsLoop args argsList lineNumber
      else if HasPrefix (pyParamName arg) ''*'' then parsePythonArgsLoop args argsList lineNumber
      else parsePythonArgsLoop
             (args @ [\<lparr>vName = pyParamName arg, vType = pyParamType arg,
                       vScope = ''parameter'', vLine = lineNumber\<rparr>])
             argsList lineNumber)"

definition parsePythonFunctionArgs :: "string \<Rightarrow> nat \<Rightarrow> Variable list" where
  "parsePythonFunctionArgs argsStr lineNumber =
     (if argsStr = [] then [] else parsePythonArgsLoop [] (Split argsStr (CHR '','')) lineNumber)"

section \<open>Indentation language: scope predicates\<close>

text \<open>A Go slice expression whose bounds are out of range panics; the panic is a value.\<close>

datatype panic = SliceOutOfRange

text \<open>The offset at which the line holding offset \<open>pos\<close> starts.\<close>

definition lineStartOf :: "string \<Rightarrow> nat \<Rightarrow> nat" where
  "lineStartOf content pos =
     (case LastIndex (take pos content) [NL] of None \<Rightarrow> 0 | Some i \<Rightarrow> Suc i)"

text \<open>\<open>len(line) - len(strings.TrimLeft(line, " \t"))\<close>.\<close>

definition indentOf :: "string \<Rightarrow> nat" where
  "indentOf line = length line - length (TrimLeftBlank line)"

text \<open>
  The backward loop of \<open>isPythonWithinFunction\<close>, \<open>for i := len(lines) - 1; i >= 0; i--\<close>,
  as a recursion over the lines in reverse order.
\<close>

fun withinFunctionScan :: "nat \<Rightarrow> string list \<Rightarrow> bool" where
  "withinFunctionScan currentIndent [] = False"
| "withinFunctionScan currentIndent (line # lines) =
     (if TrimSpace line = [] then withinFunctionScan currentIndent lines
      else if indentOf line \<le> currentIndent
      then (if length (TrimSpace line) \<ge> 3 \<and> take 3 (TrimSpace line) = ''def'' then True
            else if indentOf line < currentIndent \<and> length (TrimSpace line) > 0
                    \<and> HasSuffix (TrimSpace line) '':''
            then False
            else withinFunctionScan currentIndent lines)
      else withinFunctionScan currentIndent lines)"

definition isPythonWithinFunction :: "string \<Rightarrow> nat \<Rightarrow> panic + bool" where
  "isPythonWithinFunction content pos =
     (if length content < pos then Inl SliceOutOfRange
      else let lineStart = lineStartOf content pos;
               currentLine = slice content lineStart pos;
               currentIndent = indentOf currentLine;
               lines = Split (take lineStart content) NL
           in Inr (withinFunctionScan currentIndent (rev lines)))"

text \<open>
  The loop of \<open>isPythonWithinClass\<close>. \<open>strings.TrimSpace(line)[:5]\<close> is taken without a
  check of the length: on a trimmed line shorter than five bytes the slice panics.
\<close>

fun withinClassScan :: "nat \<Rightarrow> string list \<Rightarrow> panic + bool" where
  "withinClassScan currentIndent [] = Inr False"
| "withinClassScan currentIndent (line # lines) =
     (if TrimSpace line = [] then withinClassScan currentIndent lines
      else if indentOf line < currentIndent
      then (if length (TrimSpace line) < 5 then Inl SliceOutOfRange
            else if take 5 (TrimSpace line) = ''class'' then Inr True
            else if HasSuffix (TrimSpace line) '':'' then Inr False
            else withinClassScan currentIndent lines)
      else withinClassScan currentIndent lines)"

definition isPythonWithinClass :: "string \<Rightarrow> nat \<Rightarrow> panic + bool" where
  "isPythonWithinClass content pos =
     (if length content < pos then Inl SliceOutOfRange
      else let lineStart = lineStartOf content pos;
               currentLine = slice content lineStart pos;
               currentIndent = indentOf currentLine;
               lines = Split (take lineStart content) NL
           in withinClassScan currentIndent (rev lines))"

definition isPythonWithinMethod :: "string \<Rightarrow> nat \<Rightarrow> panic + bool" where
  "isPythonWithinMethod content pos =
     (case isPythonWithinFunction content pos of
        Inl e \<Rightarrow> Inl e
      | Inr False \<Rightarrow> Inr False
      | Inr True \<Rightarrow> isPythonWithinClass content pos)"

text \<open>
  The lines the backward scan of \<open>isPythonWithinFunction\<close> visits and the indentation it
  compares them with.
\<close>

definition linesBefore :: "string \<Rightarrow> nat \<Rightarrow> string list" where
  "linesBefore content pos = Split (take (lineStartOf content pos) content) NL"

definition currentIndentAt :: "string \<Rightarrow> nat \<Rightarrow> nat" where
  "currentIndentAt content pos = indentOf (slice content (lineStartOf content pos) pos)"

text \<open>The two tests of the scan: a line that answers "inside", a line that answers
  "outside".\<close>

definition defLine :: "nat \<Rightarrow> string \<Rightarrow> bool" where
  "defLine currentIndent line =
     (TrimSpace line \<noteq> [] \<and> indentOf line \<le> currentIndent \<and> HasPrefix (TrimSpace line) ''def'')"

definition stopLine :: "nat \<Rightarrow> string \<Rightarrow> bool" where
  "stopLine currentIndent line =
     (TrimSpace line \<noteq> [] \<and> indentOf line < currentIndent \<and> HasSuffix (TrimSpace line) '':'')"

text \<open>
  The within-callable predicate as the specification words it: the nearest preceding
  callable header (a line that starts with the callable keyword and ends in the block
  marker) of strictly smaller indentation decides "inside", unless a block header that
  is not a callable header, of smaller or equal indentation, stands between it and the
  position.
\<close>

definition callableHeader :: "string \<Rightarrow> bool" where
  "callableHeader line = (HasPrefix (TrimSpace line) ''def'' \<and> HasSuffix (TrimSpace line) '':'')"

fun withinCallableSpecScan :: "nat \<Rightarrow> string list \<Rightarrow> bool" where
  "withinCallableSpecScan currentIndent [] = False"
| "withinCallableSpecScan currentIndent (line # lines) =
     (if callableHeader line \<and> indentOf line < currentIndent then True
      else if HasSuffix (TrimSpace line) '':'' \<and> \<not> callableHeader line
              \<and> indentOf line \<le> currentIndent
      then False
      else withinCallableSpecScan currentIndent lines)"

definition withinCallableSpec :: "string \<Rightarrow> nat \<Rightarrow> bool" where
  "withinCallableSpec content pos =
     withinCallableSpecScan (currentIndentAt content pos) (rev (linesBefore content pos))"

text \<open>A top-level statement after a function: \<open>x = 1\<close> starts at offset 18.\<close>

definition pyExample :: string where
  "pyExample = ''def f():'' @ NL # ''    pass'' @ NL # ''x = 1''"

section \<open>Delimiter language: block boundaries\<close>

text \<open>\<open>strings.Count\<close> for a separator of any (positive) length: occurrences that do not
  overlap.\<close>

fun CountStr :: "string \<Rightarrow> string \<Rightarrow> nat" where
  "CountStr [] sub = 0"
| "CountStr (c # cs) sub =
     (if HasPrefix (c # cs) sub then Suc (CountStr (drop (length sub - 1) cs) sub)
      else CountStr cs sub)"

text \<open>
  \<open>isWithinString\<close>: the parity of the quotes before the position, escaped quotes not
  counted. An escaped quote is a quote, so neither difference is negative.
\<close>

definition isWithinString :: "string \<Rightarrow> nat \<Rightarrow> panic + bool" where
  "isWithinString content pos =
     (if length content < pos then Inl SliceOutOfRange
      else let singleQuotes = CountStr (take pos content) [CHR 0x27]
                                - CountStr (take pos content) [CHR 0x5C, CHR 0x27];
               doubleQuotes = CountStr (take pos content) [CHR 0x22]
                                - CountStr (take pos content) [CHR 0x5C, CHR 0x22]
           in Inr (singleQuotes mod 2 = 1 \<or> doubleQuotes mod 2 = 1))"

text \<open>
  The loop that looks for the end of a block, written twice in the source (in
  \<open>extractPhpFunctionCalls\<close> and in \<open>findNestedPhpControlFlow\<close>):
  \<open>for i := bodyStart; i < len(content) && braceCount > 0; i++\<close>. The recursion runs over
  the text from offset \<open>i\<close> on and returns the final \<open>braceCount\<close> and \<open>bodyEnd\<close>.
\<close>

fun braceScan :: "string \<Rightarrow> nat \<Rightarrow> nat \<Rightarrow> nat \<Rightarrow> nat \<times> nat" where
  "braceScan [] i braceCount bodyEnd = (braceCount, bodyEnd)"
| "braceScan (c # cs) i braceCount bodyEnd =
     (if 0 < braceCount
      then braceScan cs (Suc i)
             (if c = CHR ''{'' then braceCount + 1
              else if c = CHR ''}'' then braceCount - 1 else braceCount)
             i
      else (braceCount, bodyEnd))"

text \<open>
  The lines both functions start with: the first \<open>{\<close> at or after \<open>startPos\<close>, the loop,
  and the test \<open>bodyEnd <= bodyStart\<close>. The result is the pair \<open>(bodyStart, bodyEnd)\<close>, or
  \<open>None\<close> where the source returns its empty result.
\<close>

definition phpBlock :: "string \<Rightarrow> nat \<Rightarrow> panic + (nat \<times> nat) option" where
  "phpBlock content startPos =
     (if length content < startPos then Inl SliceOutOfRange
      else (case Index (drop startPos content) ''{'' of
              None \<Rightarrow> Inr None
            | Some openBracePos \<Rightarrow>
                (let bodyStart = startPos + openBracePos + 1;
                     bodyEnd = snd (braceScan (drop bodyStart content) bodyStart 1 bodyStart)
                 in if bodyEnd \<le> bodyStart then Inr None else Inr (Some (bodyStart, bodyEnd)))))"

text \<open>The running balance after the byte at offset \<open>j\<close>: one for the opening delimiter,
  plus the opening and minus the closing delimiters from \<open>bodyStart\<close> to \<open>j\<close>, every one
  of them counted.\<close>

definition balanceAt :: "string \<Rightarrow> nat \<Rightarrow> nat \<Rightarrow> int" where
  "balanceAt content bodyStart j =
     1 + int (Count (slice content bodyStart (Suc j)) (CHR ''{''))
       - int (Count (slice content bodyStart (Suc j)) (CHR ''}''))"

text \<open>
  Block-end location as the specification words it: the same count, but a delimiter
  at a position judged inside a quoted string is ignored.
\<close>

fun braceScanSpec :: "string \<Rightarrow> string \<Rightarrow> nat \<Rightarrow> nat \<Rightarrow> nat \<Rightarrow> nat \<times> nat" where
  "braceScanSpec content [] i braceCount bodyEnd = (braceCount, bodyEnd)"
| "braceScanSpec content (c # cs) i braceCount bodyEnd =
     (if 0 < braceCount
      then braceScanSpec content cs (Suc i)
             (if isWithinString content i = Inr True then braceCount
              else if c = CHR ''{'' then braceCount + 1
              else if c = CHR ''}'' then braceCount - 1 else braceCount)
             i
      else (braceCount, bodyEnd))"

definition phpBlockSpec :: "string \<Rightarrow> nat \<Rightarrow> panic + (nat \<times> nat) option" where
  "phpBlockSpec content startPos =
     (if length content < startPos then Inl SliceOutOfRange
      else (case Index (drop startPos content) ''{'' of
              None \<Rightarrow> Inr None
            | Some openBracePos \<Rightarrow>
                (let bodyStart = startPos + openBracePos + 1;
                     bodyEnd = snd (braceScanSpec content (drop bodyStart content) bodyStart 1 bodyStart)
                 in if bodyEnd \<le> bodyStart then Inr None else Inr (Some (bodyStart, bodyEnd)))))"

text \<open>A function whose body holds a closing delimiter inside a quoted string.\<close>

definition phpQuoted :: string where
  "phpQuoted = ''function f() { g('' @ [CHR 0x22] @ ''}'' @ [CHR 0x22] @ ''); h(); }''"

text \<open>The balance of a piece of text read with \<open>braceCount\<close> at \<open>bc\<close>.\<close>

definition bal :: "nat \<Rightarrow> string \<Rightarrow> int" where
  "bal bc xs = int bc + int (Count xs (CHR ''{'')) - int (Count xs (CHR ''}''))"

section \<open>The cross-reference resolver\<close>

text \<open>
  A Go map is modelled as an association list with distinct keys: \<open>map_of\<close> is the
  lookup. The order in which a \<open>range\<close> statement enumerates a map is not fixed by the
  language and may change from one \<open>range\<close> to the next, so every \<open>range\<close> over a map
  takes the enumeration it follows as an input of its own.
\<close>

record HtmlElement =
  heID :: string
  heClasses :: "string list"
  heAttributes :: "(string \<times> string) list"
  heLine :: nat
  heLinkedFunctions :: "string list"

definition enumerates :: "('k \<times> 'v) list \<Rightarrow> ('k \<times> 'v) list \<Rightarrow> bool" where
  "enumerates m xs = (distinct (map fst xs) \<and> set xs = set m)"

text \<open>The enumerations followed by the four \<open>range\<close> statements of \<open>findLinkedFunctions\<close>:
  the attributes in the event-handler loop, the functions in the form-action loop, the
  attributes in the last loop, and the functions in its inner loop, once for each
  attribute key.\<close>

record rangeOrders =
  roEvent :: "(string \<times> string) list"
  roAction :: "(string \<times> Function) list"
  roHx :: "(string \<times> string) list"
  roHxFuncs :: "string \<Rightarrow> (string \<times> Function) list"

definition validOrders :: "HtmlElement \<Rightarrow> (string \<times> Function) list \<Rightarrow> rangeOrders \<Rightarrow> bool" where
  "validOrders element allFunctions orders =
     (enumerates (heAttributes element) (roEvent orders)
      \<and> enumerates allFunctions (roAction orders)
      \<and> enumerates (heAttributes element) (roHx orders)
      \<and> (\<forall>key. enumerates allFunctions (roHxFuncs orders key)))"

definition registered :: "(string \<times> Function) list \<Rightarrow> string \<Rightarrow> bool" where
  "registered allFunctions name = (map_of allFunctions name \<noteq> None)"

text \<open>\<open>filepath.Base\<close> with \<open>/\<close> as the separator.\<close>

definition Base :: "string \<Rightarrow> string" where
  "Base path =
     (if path = [] then ''.''
      else let stripped = rev (dropWhile (\<lambda>c. c = CHR ''/'') (rev path))
           in if stripped = [] then ''/''
              else rev (takeWhile (\<lambda>c. c \<noteq> CHR ''/'') (rev stripped)))"

text \<open>The pattern \<open>([a-zA-Z0-9_]+)\(\<close>.\<close>

definition reEvent :: regex where
  "reEvent = Seq (Group 1 (Plus (Sat reWord))) (Lit (CHR ''(''))"

text \<open>The name an event-handler value calls: group 1 of the leftmost match.\<close>

definition eventFuncName :: "string \<Rightarrow> string option" where
  "eventFuncName v =
     (case FindSubmatchIndex reEvent v of
        None \<Rightarrow> None
      | Some m \<Rightarrow> (case group m 1 of None \<Rightarrow> None | Some (a, b) \<Rightarrow> Some (slice v a b)))"

definition eventStep ::
  "(string \<times> Function) list \<Rightarrow> string list \<Rightarrow> string \<times> string \<Rightarrow> string list" where
  "eventStep allFunctions linkedFunctions kv =
     (case kv of (key, v) \<Rightarrow>
        if HasPrefix key ''on'' \<and> Contains v ''(''
        then (case eventFuncName v of
                None \<Rightarrow> linkedFunctions
              | Some funcName \<Rightarrow>
                  if registered allFunctions funcName
                  then appendIfNotExists linkedFunctions funcName else linkedFunctions)
        else linkedFunctions)"

definition exactStep ::
  "(string \<times> Function) list \<Rightarrow> (string \<times> string) list \<Rightarrow> string \<Rightarrow> string list \<Rightarrow> string list" where
  "exactStep allFunctions attributes key linkedFunctions =
     (case map_of attributes key of
        None \<Rightarrow> linkedFunctions
      | Some name \<Rightarrow>
          if registered allFunctions name
          then appendIfNotExists linkedFunctions name else linkedFunctions)"

definition actionMatches :: "(string \<Rightarrow> string) \<Rightarrow> string \<Rightarrow> string \<Rightarrow> bool" where
  "actionMatches toLower scriptName funcName =
     (toLower funcName = toLower scriptName
      \<or> HasPrefix (toLower funcName) (toLower scriptName @ ''_''))"

definition actionStep :: "(string \<Rightarrow> string) \<Rightarrow> string \<Rightarrow> string list \<Rightarrow> string \<Rightarrow> string list" where
  "actionStep toLower scriptName linkedFunctions funcName =
     (if actionMatches toLower scriptName funcName
      then appendIfNotExists linkedFunctions funcName else linkedFunctions)"

definition isPhpAction :: "string \<Rightarrow> bool" where
  "isPhpAction action = (HasSuffix action ''.php'' \<or> Contains action ''.php?'')"

definition scriptNameOf :: "string \<Rightarrow> string" where
  "scriptNameOf action = TrimSuffix (Base (hd (Split action (CHR ''?'')))) ''.php''"

definition hxMatches :: "(string \<Rightarrow> string) \<Rightarrow> string \<Rightarrow> string \<Rightarrow> bool" where
  "hxMatches toLower lastPart funcName =
     (let funcNameLower =
            TrimSuffix (TrimSuffix (TrimSuffix (toLower funcName) ''handler'') ''endpoint'')
              ''controller'';
          lastPartLower = TrimSuffix (TrimSuffix (toLower lastPart) ''.html'') ''.php''
      in Contains funcNameLower lastPartLower \<or> Contains lastPartLower funcNameLower)"

definition hxFuncStep :: "(string \<Rightarrow> string) \<Rightarrow> string \<Rightarrow> string list \<Rightarrow> string \<Rightarrow> string list" where
  "hxFuncStep toLower lastPart linkedFunctions funcName =
     (if hxMatches toLower lastPart funcName
      then appendIfNotExists linkedFunctions funcName else linkedFunctions)"

definition hxStep ::
  "(string \<Rightarrow> string) \<Rightarrow> rangeOrders \<Rightarrow> string list \<Rightarrow> string \<times> string \<Rightarrow> string list" where
  "hxStep toLower orders linkedFunctions kv =
     (case kv of (key, v) \<Rightarrow>
        if HasPrefix key ''hx-'' \<and> Contains v ''/''
        then foldl (hxFuncStep toLower (last (Split v (CHR ''/'')))) linkedFunctions
               (map fst (roHxFuncs orders key))
        else linkedFunctions)"

text \<open>
  \<open>findLinkedFunctions\<close>. \<open>strings.ToLower\<close> is a parameter; \<open>allClasses\<close> is not read by
  the source and is left out.
\<close>

definition findLinkedFunctions ::
  "(string \<Rightarrow> string) \<Rightarrow> rangeOrders \<Rightarrow> HtmlElement \<Rightarrow> (string \<times> Function) list \<Rightarrow> string list" where
  "findLinkedFunctions toLower orders element allFunctions =
     (let linked1 = foldl (eventStep allFunctions) [] (roEvent orders);
          linked2 = exactStep allFunctions (heAttributes element) ''data-function'' linked1;
          linked3 = exactStep allFunctions (heAttributes element) ''onclick'' linked2;
          linked4 = (case map_of (heAttributes element) ''action'' of
                       None \<Rightarrow> linked3
                     | Some action \<Rightarrow>
                         if isPhpAction action
                         then foldl (actionStep toLower (scriptNameOf action)) linked3
                                (map fst (roAction orders))
                         else linked3)
      in foldl (hxStep toLower orders) linked4 (roHx orders))"

text \<open>The names the rules select, as a set: what the resolver links, whatever the
  enumerations.\<close>

definition linkedSet ::
  "(string \<Rightarrow> string) \<Rightarrow> HtmlElement \<Rightarrow> (string \<times> Function) list \<Rightarrow> string set" where
  "linkedSet toLower element allFunctions =
     {f. registered allFunctions f \<and>
         ((\<exists>(key, v) \<in> set (heAttributes element).
             HasPrefix key ''on'' \<and> Contains v ''('' \<and> eventFuncName v = Some f)
          \<or> map_of (heAttributes element) ''data-function'' = Some f
          \<or> map_of (heAttributes element) ''onclick'' = Some f
          \<or> (\<exists>action. map_of (heAttributes element) ''action'' = Some action
                \<and> isPhpAction action \<and> actionMatches toLower (scriptNameOf action) f)
          \<or> (\<exists>(key, v) \<in> set (heAttributes element).
                HasPrefix key ''hx-'' \<and> Contains v ''/''
                \<and> hxMatches toLower (last (Split v (CHR ''/''))) f))}"

text \<open>\<open>strings.ToLower\<close> on ASCII text.\<close>

definition asciiLower :: "string \<Rightarrow> string" where
  "asciiLower s = map lowerByte s"

text \<open>Scenario D: a form that posts to \<open>save.php\<close>, and a registry with \<open>save\<close> and
  \<open>save_draft\<close>, enumerated in either order.\<close>

definition emptyFunction :: "string \<Rightarrow> Function" where
  "emptyFunction name =
     \<lparr>fnName = name, fnArgs = [], fnReturns = [], fnReceiver = [], fnLine = 1, fnCalls = []\<rparr>"

definition saveForm :: HtmlElement where
  "saveForm = \<lparr>heID = [], heClasses = [], heAttributes = [(''action'', ''save.php'')],
                heLine = 1, heLinkedFunctions = []\<rparr>"

definition saveRegistry :: "(string \<times> Function) list" where
  "saveRegistry = [(''save'', emptyFunction ''save''), (''save_draft'', emptyFunction ''save_draft'')]"

definition ordersOf :: "HtmlElement \<Rightarrow> (string \<times> Function) list \<Rightarrow> rangeOrders" where
  "ordersOf element fs =
     \<lparr>roEvent = heAttributes element, roAction = fs, roHx = heAttributes element,
      roHxFuncs = (\<lambda>key. fs)\<rparr>"

text \<open>Scenario C: an element with \<open>onclick="doThing()"\<close>.\<close>

definition clickElement :: HtmlElement where
  "clickElement = \<lparr>heID = [], heClasses = [], heAttributes = [(''onclick'', ''doThing()'')],
                    heLine = 1, heLinkedFunctions = []\<rparr>"

text \<open>No rule but the event-handler rule on \<open>onclick\<close> can apply to the element: it has no
  other event attribute, no \<open>data-function\<close>, \<open>action\<close> or \<open>hx-\<close> attribute, and the value of
  \<open>onclick\<close> is not itself the name of a registered function.\<close>

definition noOtherRule :: "HtmlElement \<Rightarrow> (string \<times> Function) list \<Rightarrow> bool" where
  "noOtherRule element allFunctions =
     (list_all (\<lambda>kv. fst kv = ''onclick''
                      \<or> (\<not> HasPrefix (fst kv) ''on'' \<and> \<not> HasPrefix (fst kv) ''hx-''
                          \<and> fst kv \<noteq> ''data-function'' \<and> fst kv \<noteq> ''action''))
               (heAttributes element)
      \<and> \<not> registered allFunctions ''doThing()'')"

definition doThingRegistry :: "(string \<times> Function) list" where
  "doThingRegistry = [(''doThing'', emptyFunction ''doThing'')]"

section \<open>The tree-based extractor\<close>

text \<open>
  The syntax tree comes from the parser of the Go distribution. It is modelled by the
  node kinds the extractor tells apart; every other kind of node is \<open>Other\<close>, with its
  children in the order \<open>ast.Inspect\<close> visits them. Type expressions are what
  \<open>exprToString\<close> prints; they hold no statement, so the walk finds nothing in them.
\<close>

datatype expr =
    Ident string
  | SelectorExpr expr string
  | StarExpr expr
  | ArrayType "expr option" expr
  | BasicLit string
  | MapType expr expr
  | InterfaceTypeExpr
  | FuncTypeExpr
  | ChanType expr
  | StructTypeExpr
  | Ellipsis expr
  | OtherExpr string

fun exprToString :: "expr \<Rightarrow> string" where
  "exprToString (Ident name) = name"
| "exprToString (SelectorExpr x sel) = exprToString x @ ''.'' @ sel"
| "exprToString (StarExpr x) = ''*'' @ exprToString x"
| "exprToString (ArrayType None elt) = ''[]'' @ exprToString elt"
| "exprToString (ArrayType (Some len) elt) = ''['' @ exprToString len @ '']'' @ exprToString elt"
| "exprToString (BasicLit v) = v"
| "exprToString (MapType k v) = ''map['' @ exprToString k @ '']'' @ exprToString v"
| "exprToString InterfaceTypeExpr = ''interface{}''"
| "exprToString FuncTypeExpr = ''func''"
| "exprToString (ChanType v) = ''chan '' @ exprToString v"
| "exprToString StructTypeExpr = ''struct{}''"
| "exprToString (Ellipsis elt) = ''...'' @ exprToString elt"
| "exprToString (OtherExpr t) = ''<'' @ t @ ''>''"

text \<open>A field of a parameter, result, receiver or struct field list: the names with
  their lines, the type, and the line of the field.\<close>

record Field =
  fdNames :: "(string \<times> nat) list"
  fdType :: expr
  fdLine :: nat

record ValueSpec =
  vsNames :: "(string \<times> nat) list"
  vsType :: "expr option"
  vsValues :: nat

record FuncSig =
  fsName :: string
  fsLine :: nat
  fsRecv :: "Field list"
  fsParams :: "Field list"
  fsResults :: "Field list"

record IfaceMethod =
  imNames :: "string list"
  imLine :: nat
  imFuncType :: "(Field list \<times> Field list) option"

datatype node =
    FuncDecl FuncSig "node list"
  | StructSpec string "Field list"
  | InterfaceSpec string "IfaceMethod list"
  | IfStmt nat "node list" "node list" "node list"
  | ForStmt nat "node list" "node list"
  | SwitchStmt nat "node list" "node list"
  | CaseClause "node list" "node list"
  | BlockStmt "node list"
  | CallExpr expr "node list"
  | VarDecl "ValueSpec list" "node list"
  | Other "node list"

text \<open>
  The arguments of the node constructors: a function declaration has its signature and
  the statements of its body; \<open>IfStmt\<close> has the line, the nodes of its initialiser and
  condition, the statements of its body and the nodes of its else branch; \<open>ForStmt\<close> the
  line, the nodes of its header and the statements of its body; \<open>SwitchStmt\<close> the line,
  the nodes of its header and the clauses of its body; \<open>CaseClause\<close> its expressions and
  its statements; \<open>CallExpr\<close> the called expression and the nodes below the call;
  \<open>VarDecl\<close> (a declaration with the token \<open>var\<close>) its specifications and the nodes below.
\<close>

record Interface =
  ifName :: string
  ifMethods :: "Function list"

record GoFileSummary =
  gsFilePath :: string
  gsVariables :: "Variable list"
  gsFunctions :: "Function list"
  gsControlFlows :: "ControlFlow list"
  gsStructs :: "Struct list"
  gsInterfaces :: "Interface list"
  gsImports :: "string list"

record GoFile =
  gfImports :: "string list"
  gfDecls :: "node list"

text \<open>\<open>extractNestedControlFlow\<close>: the control-flow statements standing directly in a
  block, each with the ones standing directly in its own body. \<open>nestedOf\<close> is one round of
  the loop over the statements.\<close>

fun nestedOf :: "node \<Rightarrow> ControlFlow list" where
  "nestedOf (IfStmt line pre body els) = [ControlFlow ''if'' line (concat (map nestedOf body))]"
| "nestedOf (ForStmt line pre body) = [ControlFlow ''for'' line (concat (map nestedOf body))]"
| "nestedOf (SwitchStmt line pre clauses) =
     [ControlFlow ''switch'' line
        (concat (map (\<lambda>clause. case clause of
                         CaseClause es stmts \<Rightarrow>
                           concat (map (\<lambda>stmt. case stmt of
                                           BlockStmt ss \<Rightarrow> concat (map nestedOf ss)
                                         | _ \<Rightarrow> [])
                                       stmts)
                       | _ \<Rightarrow> [])
                     clauses))]"
| "nestedOf _ = []"

definition extractNestedControlFlow :: "node list \<Rightarrow> ControlFlow list" where
  "extractNestedControlFlow block = concat (map nestedOf block)"

text \<open>The nodes in the order \<open>ast.Inspect\<close> visits them (the callback always returns
  \<open>true\<close>).\<close>

fun preorder :: "node \<Rightarrow> node list" where
  "preorder (FuncDecl sig body) = FuncDecl sig body # concat (map preorder body)"
| "preorder (StructSpec name fieldList) = [StructSpec name fieldList]"
| "preorder (InterfaceSpec name methods) = [InterfaceSpec name methods]"
| "preorder (IfStmt line pre body els) =
     IfStmt line pre body els # concat (map preorder pre) @ concat (map preorder body)
       @ concat (map preorder els)"
| "preorder (ForStmt line pre body) =
     ForStmt line pre body # concat (map preorder pre) @ concat (map preorder body)"
| "preorder (SwitchStmt line pre clauses) =
     SwitchStmt line pre clauses # concat (map preorder pre) @ concat (map preorder clauses)"
| "preorder (CaseClause es stmts) =
     CaseClause es stmts # concat (map preorder es) @ concat (map preorder stmts)"
| "preorder (BlockStmt ss) = BlockStmt ss # concat (map preorder ss)"
| "preorder (CallExpr f args) = CallExpr f args # concat (map preorder args)"
| "preorder (VarDecl specs ns) = VarDecl specs ns # concat (map preorder ns)"
| "preorder (Other ns) = Other ns # concat (map preorder ns)"

definition fieldVars :: "string \<Rightarrow> Field \<Rightarrow> Variable list" where
  "fieldVars scope field =
     map (\<lambda>(name, line). \<lparr>vName = name, vType = exprToString (fdType field),
                            vScope = scope, vLine = line\<rparr>)
         (fdNames field)"

text \<open>The calls of a function body: a call of a bare name or of a selector, once each,
  in the order met.\<close>

definition callStep :: "string list \<Rightarrow> node \<Rightarrow> string list" where
  "callStep calls n =
     (case n of
        CallExpr (Ident name) args \<Rightarrow> appendIfNotExists calls name
      | CallExpr (SelectorExpr x sel) args \<Rightarrow>
          appendIfNotExists calls (exprToString (SelectorExpr x sel))
      | _ \<Rightarrow> calls)"

definition recvTypeOf :: "FuncSig \<Rightarrow> string" where
  "recvTypeOf sig = TrimPrefix (exprToString (fdType (hd (fsRecv sig)))) ''*''"

definition extractFunction :: "FuncSig \<Rightarrow> node list \<Rightarrow> Function" where
  "extractFunction sig body =
     \<lparr>fnName = fsName sig,
      fnArgs = concat (map (fieldVars ''argument'') (fsParams sig)),
      fnReturns = map (\<lambda>field. exprToString (fdType field)) (fsResults sig),
      fnReceiver = (if fsRecv sig \<noteq> [] then recvTypeOf sig else []),
      fnLine = fsLine sig,
      fnCalls = foldl callStep [] (concat (map preorder body))\<rparr>"

definition extractStructFields :: "Field list \<Rightarrow> Variable list" where
  "extractStructFields fieldList =
     concat (map (\<lambda>field.
                    if fdNames field = []
                    then [\<lparr>vName = exprToString (fdType field), vType = exprToString (fdType field),
                           vScope = ''struct'', vLine = fdLine field\<rparr>]
                    else fieldVars ''struct'' field)
                 fieldList)"

definition extractInterfaceMethods :: "IfaceMethod list \<Rightarrow> Function list" where
  "extractInterfaceMethods methods =
     concat (map (\<lambda>m.
                    if imNames m = [] then []
                    else [\<lparr>fnName = hd (imNames m),
                           fnArgs = (case imFuncType m of
                                       None \<Rightarrow> []
                                     | Some (params, results) \<Rightarrow>
                                         concat (map (fieldVars ''argument'') params)),
                           fnReturns = (case imFuncType m of
                                          None \<Rightarrow> []
                                        | Some (params, results) \<Rightarrow>
                                            map (\<lambda>field. exprToString (fdType field)) results),
                           fnReceiver = [], fnLine = imLine m, fnCalls = []\<rparr>])
                 methods)"

text \<open>The loop over the declarations that collects the global variables.\<close>

definition globalVars :: "node list \<Rightarrow> Variable list" where
  "globalVars decls =
     concat (map (\<lambda>decl. case decl of
                     VarDecl specs ns \<Rightarrow>
                       concat (map (\<lambda>spec.
                                      map (\<lambda>(name, line).
                                             \<lparr>vName = name,
                                              vType = (case vsType spec of
                                                         Some t \<Rightarrow> exprToString t
                                                       | None \<Rightarrow> if 0 < vsValues spec
                                                                  then ''inferred'' else []),
                                              vScope = ''global'', vLine = line\<rparr>)
                                          (vsNames spec))
                                   specs)
                   | _ \<Rightarrow> [])
                 decls)"

text \<open>
  The callback of \<open>ast.Inspect\<close> in \<open>analyzeGoFile\<close>: the state is the summary under
  construction and the registry \<open>allStructs\<close>. A method is appended to the registry
  entry of its receiver type if the registry has one at that moment; a struct type
  is (re)registered with no method.
\<close>

type_synonym structRegistry = "string \<rightharpoonup> Struct"

definition switchChildren :: "node list \<Rightarrow> ControlFlow list" where
  "switchChildren clauses =
     concat (map (\<lambda>clause. case clause of
                     CaseClause es stmts \<Rightarrow>
                       concat (map (\<lambda>stmt. case stmt of
                                       BlockStmt ss \<Rightarrow> extractNestedControlFlow ss
                                     | _ \<Rightarrow> [])
                                   stmts)
                   | _ \<Rightarrow> [])
                 clauses)"

fun visit :: "GoFileSummary \<times> structRegistry \<Rightarrow> node \<Rightarrow> GoFileSummary \<times> structRegistry" where
  "visit (summary, allStructs) (FuncDecl sig body) =
     (let function = extractFunction sig body;
          summary' = summary\<lparr>gsFunctions := gsFunctions summary @ [function]\<rparr>
      in if fsRecv sig \<noteq> []
         then (case allStructs (recvTypeOf sig) of
                 Some s \<Rightarrow>
                   (summary', allStructs(recvTypeOf sig \<mapsto> s\<lparr>stMethods := stMethods s @ [function]\<rparr>))
               | None \<Rightarrow> (summary', allStructs))
         else (summary', allStructs))"
| "visit (summary, allStructs) (StructSpec name fieldList) =
     (let structure = \<lparr>stName = name, stFields = extractStructFields fieldList,
                       stMethods = [], stLine = 0\<rparr>
      in (summary\<lparr>gsStructs := gsStructs summary @ [structure]\<rparr>, allStructs(name \<mapsto> structure)))"
| "visit (summary, allStructs) (InterfaceSpec name methods) =
     (summary\<lparr>gsInterfaces := gsInterfaces summary
                  @ [\<lparr>ifName = name, ifMethods = extractInterfaceMethods methods\<rparr>]\<rparr>,
      allStructs)"
| "visit (summary, allStructs) (IfStmt line pre body els) =
     (summary\<lparr>gsControlFlows := gsControlFlows summary
                  @ [ControlFlow ''if'' line (extractNestedControlFlow body)]\<rparr>,
      allStructs)"
| "visit (summary, allStructs) (ForStmt line pre body) =
     (summary\<lparr>gsControlFlows := gsControlFlows summary
                  @ [ControlFlow ''for'' line (extractNestedControlFlow body)]\<rparr>,
      allStructs)"
| "visit (summary, allStructs) (SwitchStmt line pre clauses) =
     (summary\<lparr>gsControlFlows := gsControlFlows summary
                  @ [ControlFlow ''switch'' line (switchChildren clauses)]\<rparr>,
      allStructs)"
| "visit (summary, allStructs) _ = (summary, allStructs)"

text \<open>\<open>strings.Trim(s, "\"")\<close>: the double quotes at both ends removed.\<close>

definition TrimQuotes :: "string \<Rightarrow> string" where
  "TrimQuotes s =
     rev (dropWhile (\<lambda>c. c = CHR 0x22) (rev (dropWhile (\<lambda>c. c = CHR 0x22) s)))"

text \<open>The loop "Update struct methods" that ends \<open>analyzeGoFile\<close>.\<close>

definition updateStructMethods :: "structRegistry \<Rightarrow> Struct list \<Rightarrow> Struct list" where
  "updateStructMethods allStructs structs =
     map (\<lambda>s. case allStructs (stName s) of
                 Some updatedStruct \<Rightarrow>
                   if stMethods updatedStruct \<noteq> [] then s\<lparr>stMethods := stMethods updatedStruct\<rparr>
                   else s
               | None \<Rightarrow> s)
         structs"

definition emptyGoSummary :: "string \<Rightarrow> GoFileSummary" where
  "emptyGoSummary filePath =
     \<lparr>gsFilePath = filePath, gsVariables = [], gsFunctions = [], gsControlFlows = [],
      gsStructs = [], gsInterfaces = [], gsImports = []\<rparr>"

text \<open>
  \<open>analyzeGoFile\<close>. The result of \<open>parser.ParseFile\<close> is an input: the error text, or the
  file. The function returns the summary, the registry and the lines it printed.
\<close>

definition analyzeGoFile ::
  "string \<Rightarrow> string + GoFile \<Rightarrow> structRegistry \<Rightarrow> GoFileSummary \<times> structRegistry \<times> string list" where
  "analyzeGoFile filePath parsed allStructs =
     (case parsed of
        Inl err \<Rightarrow>
          (emptyGoSummary filePath, allStructs,
           [''Error parsing Go file '' @ filePath @ '': '' @ err])
      | Inr file \<Rightarrow>
          (let summary0 = (emptyGoSummary filePath)
                 \<lparr>gsImports := map TrimQuotes (gfImports file),
                  gsVariables := globalVars (gfDecls file)\<rparr>;
               (summary1, allStructs1) =
                 foldl visit (summary0, allStructs) (concat (map preorder (gfDecls file)))
           in (summary1\<lparr>gsStructs := updateStructMethods allStructs1 (gsStructs summary1)\<rparr>,
               allStructs1, [])))"

text \<open>The part of the first pass of \<open>analyzeDirRecursive\<close> that handles the files of the
  grammar-defined language: the summary is appended, and the functions and structs of
  the file are stored in the registries.\<close>

record runState =
  rsAllFunctions :: "string \<rightharpoonup> Function"
  rsAllStructs :: structRegistry
  rsGoFiles :: "GoFileSummary list"
  rsOutput :: "string list"

definition processGoFile :: "runState \<Rightarrow> string \<times> (string + GoFile) \<Rightarrow> runState" where
  "processGoFile st f =
     (case analyzeGoFile (fst f) (snd f) (rsAllStructs st) of
        (goFile, allStructs1, out) \<Rightarrow>
          \<lparr>rsAllFunctions = foldl (\<lambda>m fn. m(fnName fn \<mapsto> fn)) (rsAllFunctions st) (gsFunctions goFile),
           rsAllStructs = foldl (\<lambda>m str. m(stName str \<mapsto> str)) allStructs1 (gsStructs goFile),
           rsGoFiles = rsGoFiles st @ [goFile],
           rsOutput = rsOutput st @ out\<rparr>)"

definition analyzeGoFiles :: "runState \<Rightarrow> (string \<times> (string + GoFile)) list \<Rightarrow> runState" where
  "analyzeGoFiles st files = foldl processGoFile st files"

definition initialState :: runState where
  "initialState = \<lparr>rsAllFunctions = Map.empty, rsAllStructs = Map.empty, rsGoFiles = [], rsOutput = []\<rparr>"

text \<open>Two files that declare the struct type \<open>Foo\<close> and the method \<open>Bar\<close> on it: the type
  first, and the method first.\<close>

definition barSig :: "nat \<Rightarrow> FuncSig" where
  "barSig line =
     \<lparr>fsName = ''Bar'', fsLine = line,
      fsRecv = [\<lparr>fdNames = [(''f'', line)], fdType = Ident ''Foo'', fdLine = line\<rparr>],
      fsParams = [], fsResults = []\<rparr>"

definition typeFirst :: GoFile where
  "typeFirst = \<lparr>gfImports = [], gfDecls = [Other [StructSpec ''Foo'' []], FuncDecl (barSig 2) []]\<rparr>"

definition methodFirst :: GoFile where
  "methodFirst = \<lparr>gfImports = [], gfDecls = [FuncDecl (barSig 1) [], Other [StructSpec ''Foo'' []]]\<rparr>"

text \<open>The names of the methods of the structs of a summary, and of a registry entry.\<close>

definition methodNames :: "Struct list \<Rightarrow> (string \<times> string list) list" where
  "methodNames structs = map (\<lambda>s. (stName s, map fnName (stMethods s))) structs"

definition registryMethodNames :: "structRegistry \<Rightarrow> string \<Rightarrow> string list option" where
  "registryMethodNames allStructs name = map_option (\<lambda>s. map fnName (stMethods s)) (allStructs name)"

definition typeOnly :: GoFile where
  "typeOnly = \<lparr>gfImports = [], gfDecls = [Other [StructSpec ''Foo'' []]]\<rparr>"

definition methodOnly :: GoFile where
  "methodOnly = \<lparr>gfImports = [], gfDecls = [FuncDecl (barSig 1) []]\<rparr>"

section \<open>The delimiter-scoped extractor\<close>

text \<open>A step that can panic, in sequence: the first panic is the result.\<close>

fun sequenceP :: "(panic + 'a) list \<Rightarrow> panic + 'a list" where
  "sequenceP [] = Inr []"
| "sequenceP (Inl e # rs) = Inl e"
| "sequenceP (Inr x # rs) = (case sequenceP rs of Inl e \<Rightarrow> Inl e | Inr xs \<Rightarrow> Inr (x # xs))"


text \<open>\<open>strings.Fields\<close>: the pieces between runs of white space.\<close>

fun fieldsLoop :: "string \<Rightarrow> string \<Rightarrow> string list" where
  "fieldsLoop cur [] = (if cur = [] then [] else [cur])"
| "fieldsLoop cur (c # cs) =
     (if spaceWidth (c # cs) = 0 then fieldsLoop (cur @ [c]) cs
      else (if cur = [] then [] else [cur]) @ fieldsLoop [] (drop (spaceWidth (c # cs) - 1) cs))"

definition Fields :: "string \<Rightarrow> string list" where
  "Fields s = fieldsLoop [] s"

text \<open>The patterns of the extractor:
  \<^verbatim>\<open>(?i)class\s+(\w+)(?:\s+extends\s+(\w+))?(?:\s+implements\s+([\w,\s]+))?\<close>,
  \<^verbatim>\<open>(?i)(public|protected|private)?\s*function\s+(\w+)\s*\((.*?)\)\<close>,
  \<^verbatim>\<open>(?i)(public|protected|private)\s+(\$\w+)\<close> and
  \<^verbatim>\<open>(\$\w+->)?(\w+)\s*\(\<close>.\<close>

definition reVisibility :: regex where
  "reVisibility = Alt (litsI ''public'') (Alt (litsI ''protected'') (litsI ''private''))"

definition rePhpClass :: regex where
  "rePhpClass =
     seqs [litsI ''class'', Plus (Sat reSpace), Group 1 (Plus (SatI reWord)),
           Opt (seqs [Plus (Sat reSpace), litsI ''extends'', Plus (Sat reSpace),
                      Group 2 (Plus (SatI reWord))]),
           Opt (seqs [Plus (Sat reSpace), litsI ''implements'', Plus (Sat reSpace),
                      Group 3 (Plus (SatI (\<lambda>c. reWord c \<or> c = CHR '','' \<or> reSpace c)))])]"

definition rePhpMethod :: regex where
  "rePhpMethod =
     seqs [Opt (Group 1 reVisibility), Star (Sat reSpace), litsI ''function'', Plus (Sat reSpace),
           Group 2 (Plus (SatI reWord)), Star (Sat reSpace), Lit (CHR ''(''),
           Group 3 (StarLazy (Sat reDot)), Lit (CHR '')'')]"

definition rePhpProperty :: regex where
  "rePhpProperty =
     seqs [Group 1 reVisibility, Plus (Sat reSpace),
           Group 2 (Seq (Lit (CHR ''$'')) (Plus (SatI reWord)))]"

definition rePhpCall :: regex where
  "rePhpCall =
     seqs [Opt (Group 1 (seqs [Lit (CHR ''$''), Plus (Sat reWord), lits ''->''])),
           Group 2 (Plus (Sat reWord)), Star (Sat reSpace), Lit (CHR ''('')]"

text \<open>The text of a group of a match found in \<open>s\<close> (the empty string for a group that took
  no part, as \<open>FindAllStringSubmatch\<close> gives it).\<close>

definition groupText :: "string \<Rightarrow> rematch \<Rightarrow> nat \<Rightarrow> string" where
  "groupText s m g = (case group m g of None \<Rightarrow> [] | Some (a, b) \<Rightarrow> slice s a b)"

definition isWithinMethod :: "string \<Rightarrow> nat \<Rightarrow> panic + bool" where
  "isWithinMethod content pos =
     (if length content < pos then Inl SliceOutOfRange
      else (case LastIndex (take pos content) ''function '' of
              None \<Rightarrow> Inr False
            | Some lastFuncPos \<Rightarrow>
                (case Index (slice content lastFuncPos pos) ''{'' of
                   None \<Rightarrow> Inr False
                 | Some openBracePos \<Rightarrow>
                     (let funcPart = slice content (lastFuncPos + openBracePos + 1) pos
                      in Inr (Count funcPart (CHR ''}'') \<le> Count funcPart (CHR ''{''))))))"

fun parsePhpArgsLoop :: "Variable list \<Rightarrow> string list \<Rightarrow> nat \<Rightarrow> Variable list" where
  "parsePhpArgsLoop args [] lineNumber = args"
| "parsePhpArgsLoop args (arg # argsSplit) lineNumber =
     (if TrimSpace arg = [] then parsePhpArgsLoop args argsSplit lineNumber
      else if 2 \<le> length (Fields (TrimSpace arg)) \<and> HasPrefix (last (Fields (TrimSpace arg))) ''$''
      then parsePhpArgsLoop
             (args @ [\<lparr>vName = last (Fields (TrimSpace arg)),
                       vType = Join (butlast (Fields (TrimSpace arg))) (CHR '' ''),
                       vScope = ''parameter'', vLine = lineNumber\<rparr>])
             argsSplit lineNumber
      else if HasPrefix (TrimSpace arg) ''$''
      then parsePhpArgsLoop
             (args @ [\<lparr>vName = TrimSpace arg, vType = ''mixed'',
                       vScope = ''parameter'', vLine = lineNumber\<rparr>])
             argsSplit lineNumber
      else parsePhpArgsLoop args argsSplit lineNumber)"

definition parsePhpFunctionArgs :: "string \<Rightarrow> nat \<Rightarrow> Variable list" where
  "parsePhpFunctionArgs argsStr lineNumber =
     parsePhpArgsLoop [] (Split argsStr (CHR '','')) lineNumber"

definition phpCallStep :: "string \<Rightarrow> string list \<Rightarrow> rematch \<Rightarrow> string list" where
  "phpCallStep funcBody calls m =
     (let callName = groupText funcBody m 2
      in if callName = ''if'' \<or> callName = ''for'' \<or> callName = ''while''
            \<or> callName = ''foreach'' \<or> callName = ''switch''
         then calls else appendIfNotExists calls callName)"

definition extractPhpFunctionCalls :: "string \<Rightarrow> nat \<Rightarrow> panic + string list" where
  "extractPhpFunctionCalls content funcStartPos =
     (case phpBlock content funcStartPos of
        Inl e \<Rightarrow> Inl e
      | Inr None \<Rightarrow> Inr []
      | Inr (Some (funcBodyStart, funcBodyEnd)) \<Rightarrow>
          (let funcBody = slice content funcBodyStart funcBodyEnd
           in Inr (foldl (phpCallStep funcBody) [] (FindAllSubmatchIndex rePhpCall funcBody))))"

text \<open>One round of the loop of \<open>extractPhpMethods\<close>; the offsets of the match are
  relative to \<open>classBodyStart\<close>.\<close>

definition phpMethodOf :: "string \<Rightarrow> nat \<Rightarrow> string \<Rightarrow> rematch \<Rightarrow> panic + Function" where
  "phpMethodOf content classBodyStart className m =
     (let body = drop classBodyStart content;
          methodPos = classBodyStart + mStart m;
          lineNumber = countLines (take methodPos content)
      in case extractPhpFunctionCalls content methodPos of
           Inl e \<Rightarrow> Inl e
         | Inr calls \<Rightarrow>
             Inr \<lparr>fnName = groupText body m 2,
                  fnArgs = parsePhpFunctionArgs (groupText body m 3) lineNumber,
                  fnReturns = [], fnReceiver = className, fnLine = lineNumber,
                  fnCalls = calls\<rparr>)"

definition extractPhpMethods :: "string \<Rightarrow> nat \<Rightarrow> string \<Rightarrow> panic + Function list" where
  "extractPhpMethods content classStartPos className =
     (if length content < classStartPos then Inl SliceOutOfRange
      else (case Index (drop classStartPos content) ''{'' of
              None \<Rightarrow> Inr []
            | Some openBracePos \<Rightarrow>
                (let classBodyStart = classStartPos + openBracePos + 1
                 in sequenceP (map (phpMethodOf content classBodyStart className)
                                   (FindAllSubmatchIndex rePhpMethod (drop classBodyStart content))))))"

text \<open>One round of the loop of \<open>extractPhpProperties\<close>: nothing for a match inside a
  method.\<close>

definition phpPropertyOf :: "string \<Rightarrow> nat \<Rightarrow> rematch \<Rightarrow> panic + Variable list" where
  "phpPropertyOf content classBodyStart m =
     (let body = drop classBodyStart content;
          propPos = classBodyStart + mStart m
      in case isWithinMethod content propPos of
           Inl e \<Rightarrow> Inl e
         | Inr True \<Rightarrow> Inr []
         | Inr False \<Rightarrow>
             Inr [\<lparr>vName = groupText body m 2, vType = ''inferred'',
                   vScope = groupText body m 1,
                   vLine = countLines (take propPos content)\<rparr>])"

definition extractPhpProperties :: "string \<Rightarrow> nat \<Rightarrow> panic + Variable list" where
  "extractPhpProperties content classStartPos =
     (if length content < classStartPos then Inl SliceOutOfRange
      else (case Index (drop classStartPos content) ''{'' of
              None \<Rightarrow> Inr []
            | Some openBracePos \<Rightarrow>
                (let classBodyStart = classStartPos + openBracePos + 1
                 in case sequenceP (map (phpPropertyOf content classBodyStart)
                                        (FindAllSubmatchIndex rePhpProperty
                                           (drop classBodyStart content))) of
                      Inl e \<Rightarrow> Inl e
                    | Inr vs \<Rightarrow> Inr (concat vs))))"

text \<open>The loop "Parse classes" of \<open>analyzePhpFile\<close>: the list \<open>summary.Classes\<close>.\<close>

definition phpClassOf :: "string \<Rightarrow> rematch \<Rightarrow> panic + Struct" where
  "phpClassOf content m =
     (let startPos = mStart m;
          className = groupText content m 1
      in case extractPhpProperties content startPos of
           Inl e \<Rightarrow> Inl e
         | Inr props \<Rightarrow>
             (case extractPhpMethods content startPos className of
                Inl e \<Rightarrow> Inl e
              | Inr methods \<Rightarrow>
                  Inr \<lparr>stName = className, stFields = props, stMethods = methods,
                       stLine = countLines (take startPos content)\<rparr>))"

definition phpClasses :: "string \<Rightarrow> panic + Struct list" where
  "phpClasses content = sequenceP (map (phpClassOf content) (FindAllSubmatchIndex rePhpClass content))"

text \<open>Scenario A.\<close>

definition scenarioA :: string where
  "scenarioA = ''class Foo { public function bar($x) { baz(); } }''"

section \<open>The indentation-scoped extractor\<close>

text \<open>The patterns:
  \<^verbatim>\<open>(?m)^class\s+(\w+)(?:\s*\(\s*([^)]*)\s*\))?:\<close>,
  \<^verbatim>\<open>(?m)^def\s+(\w+)\s*\(\s*(.*?)\s*\):\<close>,
  \<^verbatim>\<open>(?m)^\s+(\w+)\s*=\<close>,
  \<^verbatim>\<open>(\w+)\s*:\s*([^=]+)\<close>,
  \<^verbatim>\<open>@(\w+)(?:\(.*?\))?\<close>,
  \<^verbatim>\<open>->\s*([^:]+)\<close>,
  \<^verbatim>\<open>(\w+)\s*\(\<close> and
  \<^verbatim>\<open>(\w+)\.(\w+)\s*\(\<close>.\<close>

definition rePyClass :: regex where
  "rePyClass =
     seqs [BeginLine, lits ''class'', Plus (Sat reSpace), Group 1 (Plus (Sat reWord)),
           Opt (seqs [Star (Sat reSpace), Lit (CHR ''(''), Star (Sat reSpace),
                      Group 2 (Star (Sat (\<lambda>c. c \<noteq> CHR '')''))), Star (Sat reSpace),
                      Lit (CHR '')'')]),
           Lit (CHR '':'')]"

definition rePyFunc :: regex where
  "rePyFunc =
     seqs [BeginLine, lits ''def'', Plus (Sat reSpace), Group 1 (Plus (Sat reWord)),
           Star (Sat reSpace), Lit (CHR ''(''), Star (Sat reSpace),
           Group 2 (StarLazy (Sat reDot)), Star (Sat reSpace), Lit (CHR '')''), Lit (CHR '':'')]"

definition rePyField :: regex where
  "rePyField =
     seqs [BeginLine, Plus (Sat reSpace), Group 1 (Plus (Sat reWord)), Star (Sat reSpace),
           Lit (CHR ''='')]"

definition rePyTypeHint :: regex where
  "rePyTypeHint =
     seqs [Group 1 (Plus (Sat reWord)), Star (Sat reSpace), Lit (CHR '':''), Star (Sat reSpace),
           Group 2 (Plus (Sat (\<lambda>c. c \<noteq> CHR ''='')))]"

definition rePyDecorator :: regex where
  "rePyDecorator =
     seqs [Lit (CHR ''@''), Group 1 (Plus (Sat reWord)),
           Opt (seqs [Lit (CHR ''(''), StarLazy (Sat reDot), Lit (CHR '')'')])]"

definition rePyReturnType :: regex where
  "rePyReturnType =
     seqs [lits ''->'', Star (Sat reSpace), Group 1 (Plus (Sat (\<lambda>c. c \<noteq> CHR '':'')))]"

definition rePyCall :: regex where
  "rePyCall = seqs [Group 1 (Plus (Sat reWord)), Star (Sat reSpace), Lit (CHR ''('')]"

definition rePyMethodCall :: regex where
  "rePyMethodCall =
     seqs [Group 1 (Plus (Sat reWord)), Lit (CHR ''.''), Group 2 (Plus (Sat reWord)),
           Star (Sat reSpace), Lit (CHR ''('')]"

definition isPythonMethod :: "string \<Rightarrow> nat \<Rightarrow> panic + bool" where
  "isPythonMethod content pos =
     (if length content < pos then Inl SliceOutOfRange
      else Inr (0 < indentOf (slice content (lineStartOf content pos) pos)))"

definition extractPythonDecorators :: "string \<Rightarrow> nat \<Rightarrow> panic + string list" where
  "extractPythonDecorators content funcPos =
     (if length content < funcPos then Inl SliceOutOfRange
      else let searchStart = (if 200 < funcPos then funcPos - 200 else 0);
               searchText = slice content searchStart funcPos
           in Inr (map (\<lambda>m. groupText searchText m 1)
                       (FindAllSubmatchIndex rePyDecorator searchText)))"

text \<open>
  \<open>extractPythonReturnType\<close>. The search text is \<open>content[funcEnd-20 : funcEnd+endOfLine]\<close>,
  with no test that \<open>funcEnd\<close> is at least 20: on a smaller \<open>funcEnd\<close> the lower bound is
  negative and the slice panics.
\<close>

definition extractPythonReturnType :: "string \<Rightarrow> nat \<Rightarrow> panic + string" where
  "extractPythonReturnType content funcEnd =
     (if length content < funcEnd then Inl SliceOutOfRange
      else let endOfLine = (case Index (drop funcEnd content) [NL] of
                              None \<Rightarrow> length content - funcEnd
                            | Some i \<Rightarrow> i)
           in if funcEnd < 20 then Inl SliceOutOfRange
              else let searchText = slice content (funcEnd - 20) (funcEnd + endOfLine)
                   in (case FindSubmatchIndex rePyReturnType searchText of
                         None \<Rightarrow> Inr []
                       | Some m \<Rightarrow> Inr (TrimSpace (groupText searchText m 1))))"

definition isPythonKeywordOrBuiltin :: "string \<Rightarrow> bool" where
  "isPythonKeywordOrBuiltin name =
     (name \<in> set [''False'', ''None'', ''True'', ''and'', ''as'', ''assert'', ''async'', ''await'',
                   ''break'', ''class'', ''continue'', ''def'', ''del'', ''elif'', ''else'',
                   ''except'', ''finally'', ''for'', ''from'', ''global'', ''if'', ''import'',
                   ''in'', ''is'', ''lambda'', ''nonlocal'', ''not'', ''or'', ''pass'', ''raise'',
                   ''return'', ''try'', ''while'', ''with'', ''yield'']
      \<or> name \<in> set [''abs'', ''all'', ''any'', ''bin'', ''bool'', ''chr'', ''dict'', ''dir'',
                     ''divmod'', ''enumerate'', ''filter'', ''float'', ''format'', ''frozenset'',
                     ''getattr'', ''hasattr'', ''hash'', ''hex'', ''id'', ''input'', ''int'',
                     ''isinstance'', ''issubclass'', ''iter'', ''len'', ''list'', ''map'', ''max'',
                     ''min'', ''next'', ''oct'', ''open'', ''ord'', ''pow'', ''print'',
                     ''property'', ''range'', ''repr'', ''reversed'', ''round'', ''set'', ''slice'',
                     ''sorted'', ''staticmethod'', ''str'', ''sum'', ''super'', ''tuple'', ''type'',
                     ''vars'', ''zip''])"

text \<open>The second loop of \<open>extractPythonFunctionCalls\<close>: the non-blank lines up to the
  first one indented less than the body.\<close>

fun pyBodyLines :: "nat \<Rightarrow> string list \<Rightarrow> string list" where
  "pyBodyLines indentLevel [] = []"
| "pyBodyLines indentLevel (line # lines) =
     (if TrimSpace line = [] then pyBodyLines indentLevel lines
      else if indentOf line < indentLevel then []
      else line # pyBodyLines indentLevel lines)"

definition pyCallStep :: "string \<Rightarrow> string list \<Rightarrow> rematch \<Rightarrow> string list" where
  "pyCallStep bodyText calls m =
     (if isPythonKeywordOrBuiltin (groupText bodyText m 1) then calls
      else appendIfNotExists calls (groupText bodyText m 1))"

definition pyMethodCallStep :: "string \<Rightarrow> string list \<Rightarrow> rematch \<Rightarrow> string list" where
  "pyMethodCallStep bodyText calls m =
     (if isPythonKeywordOrBuiltin (groupText bodyText m 2) then calls
      else appendIfNotExists calls (groupText bodyText m 1 @ ''.'' @ groupText bodyText m 2))"

text \<open>\<open>extractPythonFunctionCalls\<close>: the first loop skips the blank lines after the header;
  the indentation of the first line of the body is the level of the body.\<close>

definition extractPythonFunctionCalls :: "string \<Rightarrow> nat \<Rightarrow> panic + string list" where
  "extractPythonFunctionCalls content funcPos =
     (if length content < funcPos then Inl SliceOutOfRange
      else let lines = Split (drop funcPos content) NL
           in if length lines < 2 then Inr []
              else (case dropWhile (\<lambda>line. TrimSpace line = []) (tl lines) of
                      [] \<Rightarrow> Inr []
                    | first # rest \<Rightarrow>
                        if indentOf first = 0 then Inr []
                        else let bodyText = Join (pyBodyLines (indentOf first) (first # rest)) NL;
                                 calls = foldl (pyCallStep bodyText) []
                                           (FindAllSubmatchIndex rePyCall bodyText)
                             in Inr (foldl (pyMethodCallStep bodyText) calls
                                       (FindAllSubmatchIndex rePyMethodCall bodyText))))"

text \<open>
  One round of the loop "Parse functions" of \<open>analyzePythonFile\<close>: nothing for a
  definition that is indented; otherwise the function and the decorators found before
  it. The steps are in the order of the source.
\<close>

definition pythonFunctionOf :: "string \<Rightarrow> rematch \<Rightarrow> panic + (Function \<times> string list) list" where
  "pythonFunctionOf content m =
     (case isPythonMethod content (mStart m) of
        Inl e \<Rightarrow> Inl e
      | Inr True \<Rightarrow> Inr []
      | Inr False \<Rightarrow>
          (let lineNumber = countLines (take (mStart m) content)
           in case extractPythonDecorators content (mStart m) of
                Inl e \<Rightarrow> Inl e
              | Inr decorators \<Rightarrow>
                  (case extractPythonReturnType content (mEnd m) of
                     Inl e \<Rightarrow> Inl e
                   | Inr returnTypeHint \<Rightarrow>
                       (case extractPythonFunctionCalls content (mStart m) of
                          Inl e \<Rightarrow> Inl e
                        | Inr calls \<Rightarrow>
                            Inr [(\<lparr>fnName = groupText content m 1,
                                   fnArgs = parsePythonFunctionArgs (groupText content m 2) lineNumber,
                                   fnReturns = (if returnTypeHint \<noteq> [] then [returnTypeHint] else []),
                                   fnReceiver = [], fnLine = lineNumber, fnCalls = calls\<rparr>,
                                  decorators)]))))"

definition pythonFunctions :: "string \<Rightarrow> panic + (Function \<times> string list) list" where
  "pythonFunctions content =
     (case sequenceP (map (pythonFunctionOf content) (FindAllSubmatchIndex rePyFunc content)) of
        Inl e \<Rightarrow> Inl e
      | Inr fs \<Rightarrow> Inr (concat fs))"

text \<open>One round of the loop of \<open>extractPythonClassFields\<close>; the offsets of the match are
  relative to \<open>classBodyStart\<close>.\<close>

definition pythonFieldOf :: "string \<Rightarrow> nat \<Rightarrow> rematch \<Rightarrow> panic + Variable list" where
  "pythonFieldOf content classBodyStart m =
     (let body = drop classBodyStart content;
          startPos = classBodyStart + mStart m
      in case isPythonWithinMethod content startPos of
           Inl e \<Rightarrow> Inl e
         | Inr True \<Rightarrow> Inr []
         | Inr False \<Rightarrow>
             (let lineEnd = (case Index (drop startPos content) [NL] of
                               None \<Rightarrow> length content - startPos
                             | Some i \<Rightarrow> i);
                  line = slice content startPos (startPos + lineEnd)
              in Inr [\<lparr>vName = groupText body m 1,
                       vType = (case FindSubmatchIndex rePyTypeHint line of
                                  None \<Rightarrow> ''inferred''
                                | Some h \<Rightarrow> TrimSpace (groupText line h 2)),
                       vScope = ''class'',
                       vLine = countLines (take startPos content)\<rparr>]))"

definition extractPythonClassFields :: "string \<Rightarrow> nat \<Rightarrow> panic + Variable list" where
  "extractPythonClassFields content classBodyStart =
     (if length content < classBodyStart then Inl SliceOutOfRange
      else (case sequenceP (map (pythonFieldOf content classBodyStart)
                                (FindAllSubmatchIndex rePyField (drop classBodyStart content))) of
              Inl e \<Rightarrow> Inl e
            | Inr vs \<Rightarrow> Inr (concat vs)))"

text \<open>The fields of the classes of a file, as the loop "Parse classes" of
  \<open>analyzePythonFile\<close> asks for them: the body of a class starts one byte after the
  match.\<close>

definition pythonClassFields :: "string \<Rightarrow> panic + Variable list list" where
  "pythonClassFields content =
     sequenceP (map (\<lambda>m. extractPythonClassFields content (mEnd m + 1))
                    (FindAllSubmatchIndex rePyClass content))"

text \<open>The pattern of the methods, \<^verbatim>\<open>(?m)^\s+def\s+(\w+)\s*\(\s*(.*?)\s*\):\<close>, and of the
  global variables, \<^verbatim>\<open>(?m)^(\w+)\s*=\<close>.\<close>

definition rePyMethod :: regex where
  "rePyMethod =
     seqs [BeginLine, Plus (Sat reSpace), lits ''def'', Plus (Sat reSpace),
           Group 1 (Plus (Sat reWord)), Star (Sat reSpace), Lit (CHR ''(''), Star (Sat reSpace),
           Group 2 (StarLazy (Sat reDot)), Star (Sat reSpace), Lit (CHR '')''), Lit (CHR '':'')]"

definition rePyGlobal :: regex where
  "rePyGlobal = seqs [BeginLine, Group 1 (Plus (Sat reWord)), Star (Sat reSpace), Lit (CHR ''='')]"

text \<open>
  The lines "Process 'self' or 'cls' parameter if present" of \<open>extractPythonClassMethods\<close>:
  a static method keeps its arguments, a class method loses a first argument named
  \<open>cls\<close>, any other method a first argument named \<open>self\<close>.
\<close>

definition stripOwner :: "string list \<Rightarrow> Variable list \<Rightarrow> Variable list" where
  "stripOwner decorators args =
     (if args \<noteq> []
      then (if ''staticmethod'' \<in> set decorators then args
            else if ''classmethod'' \<in> set decorators
            then (if vName (hd args) = ''cls'' then tl args else args)
            else (if vName (hd args) = ''self'' then tl args else args))
      else args)"

text \<open>One round of the loop of \<open>extractPythonClassMethods\<close>; the offsets of the match are
  relative to \<open>classBodyStart\<close>.\<close>

definition pythonMethodOf :: "string \<Rightarrow> nat \<Rightarrow> string \<Rightarrow> rematch \<Rightarrow> panic + Function" where
  "pythonMethodOf content classBodyStart className m =
     (let body = drop classBodyStart content;
          startPos = classBodyStart + mStart m;
          lineNumber = countLines (take startPos content)
      in case extractPythonDecorators content startPos of
           Inl e \<Rightarrow> Inl e
         | Inr decorators \<Rightarrow>
             (case extractPythonReturnType content (classBodyStart + mEnd m) of
                Inl e \<Rightarrow> Inl e
              | Inr returnTypeHint \<Rightarrow>
                  (case extractPythonFunctionCalls content startPos of
                     Inl e \<Rightarrow> Inl e
                   | Inr calls \<Rightarrow>
                       Inr \<lparr>fnName = groupText body m 1,
                            fnArgs = stripOwner decorators
                                       (parsePythonFunctionArgs (groupText body m 2) lineNumber),
                            fnReturns = (if returnTypeHint \<noteq> [] then [returnTypeHint] else []),
                            fnReceiver = className, fnLine = lineNumber, fnCalls = calls\<rparr>)))"

definition extractPythonClassMethods :: "string \<Rightarrow> nat \<Rightarrow> string \<Rightarrow> panic + Function list" where
  "extractPythonClassMethods content classBodyStart className =
     (if length content < classBodyStart then Inl SliceOutOfRange
      else sequenceP (map (pythonMethodOf content classBodyStart className)
                          (FindAllSubmatchIndex rePyMethod (drop classBodyStart content))))"

text \<open>One round of the loop "Parse classes" of \<open>analyzePythonFile\<close>, and the list
  \<open>summary.Classes\<close>. The names of the parent classes are computed by the source and not
  stored.\<close>

definition pythonClassOf :: "string \<Rightarrow> rematch \<Rightarrow> panic + Struct" where
  "pythonClassOf content m =
     (let className = groupText content m 1;
          classBodyStart = mEnd m + 1
      in case extractPythonClassFields content classBodyStart of
           Inl e \<Rightarrow> Inl e
         | Inr classFields \<Rightarrow>
             (case extractPythonClassMethods content classBodyStart className of
                Inl e \<Rightarrow> Inl e
              | Inr methods \<Rightarrow>
                  Inr \<lparr>stName = className, stFields = classFields, stMethods = methods,
                       stLine = countLines (take (mStart m) content)\<rparr>))"

definition pythonClasses :: "string \<Rightarrow> panic + Struct list" where
  "pythonClasses content =
     sequenceP (map (pythonClassOf content) (FindAllSubmatchIndex rePyClass content))"

text \<open>
  One round of the loop "Parse global variables" of \<open>analyzePythonFile\<close>: nothing for a
  match that \<open>isPythonWithinFunction\<close> or \<open>isPythonWithinClass\<close> judges inside a function or
  a class (the second is asked only when the first answers no), nor for the names
  \<open>import\<close> and \<open>from\<close>.
\<close>

definition pythonGlobalOf :: "string \<Rightarrow> rematch \<Rightarrow> panic + Variable list" where
  "pythonGlobalOf content m =
     (let startPos = mStart m
      in case isPythonWithinFunction content startPos of
           Inl e \<Rightarrow> Inl e
         | Inr True \<Rightarrow> Inr []
         | Inr False \<Rightarrow>
             (case isPythonWithinClass content startPos of
                Inl e \<Rightarrow> Inl e
              | Inr True \<Rightarrow> Inr []
              | Inr False \<Rightarrow>
                  if groupText content m 1 = ''import'' \<or> groupText content m 1 = ''from''
                  then Inr []
                  else (let lineEnd = (case Index (drop startPos content) [NL] of
                                         None \<Rightarrow> length content - startPos
                                       | Some i \<Rightarrow> i);
                            line = slice content startPos (startPos + lineEnd)
                        in Inr [\<lparr>vName = groupText content m 1,
                                 vType = (case FindSubmatchIndex rePyTypeHint line of
                                            None \<Rightarrow> ''inferred''
                                          | Some h \<Rightarrow> TrimSpace (groupText line h 2)),
                                 vScope = ''global'',
                                 vLine = countLines (take startPos content)\<rparr>])))"

definition pythonGlobalVars :: "string \<Rightarrow> panic + Variable list" where
  "pythonGlobalVars content =
     (case sequenceP (map (pythonGlobalOf content) (FindAllSubmatchIndex rePyGlobal content)) of
        Inl e \<Rightarrow> Inl e
      | Inr vs \<Rightarrow> Inr (concat vs))"

text \<open>The names an argument text gives: the names of its non-blank pieces that do not
  start with \<open>*\<close>, in the order written; and the same after the owner parameter of a
  method is dropped.\<close>

definition keptNames :: "string \<Rightarrow> string list" where
  "keptNames argsStr =
     map pyParamName
       (filter (\<lambda>p. TrimSpace p \<noteq> [] \<and> \<not> HasPrefix (TrimSpace p) ''*'')
          (Split argsStr (CHR '','')))"








definition pyClassExample :: string where
  "pyClassExample = ''class A:'' @ NL # ''    pass'' @ NL # ''x = 1''"

text \<open>A module with a function whose signature ends after offset 20, followed by a global:
  \<open>count = 1\<close> starts at offset 35.\<close>

definition pyModule :: string where
  "pyModule = ''def compute(alpha, beta):'' @ NL # ''    pass'' @ NL # ''count = 1''"

text \<open>A file that starts with a short function; and a text whose class header ends on an
  indented line, after a short line.\<close>

definition pyShortDef :: string where
  "pyShortDef = ''def f():'' @ NL # ''    pass'' @ [NL]"

definition pyShortLine :: string where
  "pyShortLine = ''class A('' @ NL # ''def'' @ NL # ''ab'' @ NL # ''  ):  y = 1''"

section \<open>Indentation language: control flow\<close>
















section \<open>Delimiter language: control flow\<close>














section \<open>Nested control flow in the tree-based extractor\<close>

















section \<open>Facts about the string primitives\<close>

lemma Split_no_sep: "sep \<notin> set p \<Longrightarrow> Split p sep = [p]"
  by (induction p) auto

lemma Split_append_sep: "sep \<notin> set p \<Longrightarrow> Split (p @ sep # rest) sep = p # Split rest sep"
  by (induction p) auto

lemma Split_Join: "\<forall>p\<in>set ps. sep \<notin> set p \<Longrightarrow> ps \<noteq> [] \<Longrightarrow> Split (Join ps sep) sep = ps"
  by (induction ps sep rule: Join.induct) (auto simp: Split_no_sep Split_append_sep)














section \<open>Argument lists of the indentation language\<close>



text \<open>For an argument text made of the pieces \<open>ps\<close> joined by commas, the names are those
  of the non-blank pieces that do not start with \<open>*\<close>, in the order written.\<close>

lemma keptNames_Join:
  assumes "\<forall>p\<in>set ps. CHR '','' \<notin> set p" and "ps \<noteq> []"
  shows "keptNames (Join ps (CHR '',''))
         = map pyParamName
             (filter (\<lambda>p. TrimSpace p \<noteq> [] \<and> \<not> HasPrefix (TrimSpace p) ''*'') ps)"
  using assms by (simp add: keptNames_def Split_Join)


















section \<open>The within-callable predicate of the indentation language\<close>

lemma take3_def: "(length t \<ge> 3 \<and> take 3 t = ''def'') = HasPrefix t ''def''"
proof -
  have l: "length ''def'' = 3" by simp
  have "take 3 t = ''def'' \<Longrightarrow> 3 \<le> length t"
    by (metis l length_take min.cobounded1)
  then show ?thesis unfolding HasPrefix_def l by blast
qed

lemma withinFunctionScan_char:
  "withinFunctionScan cur xs
   = (\<exists>a h b. xs = a @ h # b \<and> defLine cur h \<and> (\<forall>l\<in>set a. \<not> defLine cur l \<and> \<not> stopLine cur l))"
proof (induction xs)
  case Nil
  then show ?case by simp
next
  case (Cons x xs)
  show ?case
  proof (cases "defLine cur x")
    case True
    then have "withinFunctionScan cur (x # xs)" by (auto simp: defLine_def take3_def)
    moreover from True have "\<exists>a h b. x # xs = a @ h # b \<and> defLine cur h
         \<and> (\<forall>l\<in>set a. \<not> defLine cur l \<and> \<not> stopLine cur l)"
      by (intro exI[of _ "[]"] exI[of _ x] exI[of _ xs]) simp
    ultimately show ?thesis by blast
  next
    case nd: False
    show ?thesis
    proof (cases "stopLine cur x")
      case True
      with nd have "\<not> withinFunctionScan cur (x # xs)"
        by (auto simp: defLine_def stopLine_def take3_def)
      moreover have "\<not> (\<exists>a h b. x # xs = a @ h # b \<and> defLine cur h
         \<and> (\<forall>l\<in>set a. \<not> defLine cur l \<and> \<not> stopLine cur l))"
        using True nd by (auto simp: Cons_eq_append_conv)
      ultimately show ?thesis by blast
    next
      case False
      with nd have "withinFunctionScan cur (x # xs) = withinFunctionScan cur xs"
        by (auto simp: defLine_def stopLine_def take3_def)
      moreover have "(\<exists>a h b. x # xs = a @ h # b \<and> defLine cur h
         \<and> (\<forall>l\<in>set a. \<not> defLine cur l \<and> \<not> stopLine cur l))
        = (\<exists>a h b. xs = a @ h # b \<and> defLine cur h
         \<and> (\<forall>l\<in>set a. \<not> defLine cur l \<and> \<not> stopLine cur l))" (is "?L = ?R")
      proof
        assume ?L
        then obtain a h b where d: "x # xs = a @ h # b" "defLine cur h"
          "\<forall>l\<in>set a. \<not> defLine cur l \<and> \<not> stopLine cur l" by blast
        with nd obtain a' where "a = x # a'" "xs = a' @ h # b"
          by (cases a) auto
        with d show ?R by auto
      next
        assume ?R
        then obtain a h b where d: "xs = a @ h # b" "defLine cur h"
          "\<forall>l\<in>set a. \<not> defLine cur l \<and> \<not> stopLine cur l" by blast
        with nd False have "x # xs = (x # a) @ h # b \<and> defLine cur h
           \<and> (\<forall>l\<in>set (x # a). \<not> defLine cur l \<and> \<not> stopLine cur l)" by simp
        then show ?L by blast
      qed
      ultimately show ?thesis using Cons.IH by simp
    qed
  qed
qed

lemma rev_decomp: "(\<exists>a h b. rev ls = a @ h # b \<and> P h \<and> (\<forall>l\<in>set a. Q l))
   = (\<exists>before h after. ls = before @ h # after \<and> P h \<and> (\<forall>l\<in>set after. Q l))" (is "?L = ?R")
proof
  assume ?L
  then obtain a h b where "rev ls = a @ h # b" "P h" "\<forall>l\<in>set a. Q l" by blast
  then have "ls = rev b @ h # rev a \<and> P h \<and> (\<forall>l\<in>set (rev a). Q l)"
    by (simp add: rev_swap)
  then show ?R by blast
next
  assume ?R
  then obtain a h b where "ls = a @ h # b" "P h" "\<forall>l\<in>set b. Q l" by blast
  then have "rev ls = rev b @ h # rev a \<and> P h \<and> (\<forall>l\<in>set (rev b). Q l)" by simp
  then show ?L by blast
qed

text \<open>
  What the scan computes: for a position inside the text, the answer is "inside" exactly
  when, going back from the line of the position, a non-blank line of indentation
  smaller than or equal to that of the position whose trimmed text starts with \<open>def\<close>
  is met before any non-blank line of strictly smaller indentation that ends in \<open>:\<close>.
\<close>

lemma isPythonWithinFunction_nearest_def:
  assumes "pos \<le> length content"
  shows "isPythonWithinFunction content pos
         = Inr (\<exists>before h after.
                  linesBefore content pos = before @ h # after
                  \<and> defLine (currentIndentAt content pos) h
                  \<and> (\<forall>l\<in>set after. \<not> defLine (currentIndentAt content pos) l
                                     \<and> \<not> stopLine (currentIndentAt content pos) l))"
proof -
  have "isPythonWithinFunction content pos
        = Inr (withinFunctionScan (currentIndentAt content pos) (rev (linesBefore content pos)))"
    using assms
    by (simp add: isPythonWithinFunction_def Let_def linesBefore_def currentIndentAt_def)
  moreover have "withinFunctionScan (currentIndentAt content pos) (rev (linesBefore content pos))
        = (\<exists>before h after.
                  linesBefore content pos = before @ h # after
                  \<and> defLine (currentIndentAt content pos) h
                  \<and> (\<forall>l\<in>set after. \<not> defLine (currentIndentAt content pos) l
                                     \<and> \<not> stopLine (currentIndentAt content pos) l))"
    unfolding withinFunctionScan_char by (rule rev_decomp)
  ultimately show ?thesis by simp
qed

text \<open>
  C6 fails on the code. In \<open>pyExample\<close> the module-level statement \<open>x = 1\<close> (offset 18)
  follows the body of \<open>def f():\<close>; its indentation is 0, that of the header is 0 as well,
  so the statement is not inside \<open>f\<close>, and the predicate of the specification answers
  "outside". \<open>isPythonWithinFunction\<close> answers "inside": it accepts a header whose
  indentation is smaller than or equal to that of the position. The sibling
  \<open>isPythonWithinClass\<close> compares with "strictly smaller" and answers "outside" for the
  same statement after a class. The caller trusts the answer: the loop over the global
  variables reports \<open>x\<close> after a class and not after a function, and for \<open>pyModule\<close>,
  whose function is extracted, it reports no global variable: \<open>count\<close> is lost.
\<close>

theorem isPythonWithinFunction_equal_indent_inside:
  "isPythonWithinFunction pyExample 18 = Inr True
   \<and> \<not> withinCallableSpec pyExample 18
   \<and> isPythonWithinClass pyClassExample 18 = Inr False
   \<and> pythonGlobalVars pyExample = Inr []
   \<and> pythonGlobalVars pyClassExample
       = Inr [\<lparr>vName = ''x'', vType = ''inferred'', vScope = ''global'', vLine = 3\<rparr>]
   \<and> isPythonWithinFunction pyModule 35 = Inr True
   \<and> \<not> withinCallableSpec pyModule 35
   \<and> map (\<lambda>f. fnName (fst f)) (case pythonFunctions pyModule of Inl e \<Rightarrow> [] | Inr fs \<Rightarrow> fs)
       = [''compute'']
   \<and> pythonClasses pyModule = Inr []
   \<and> pythonGlobalVars pyModule = Inr []"
  by code_simp

section \<open>Block-end location in the delimiter language\<close>

lemma braceScan_zero: "braceScan cs i 0 e = (0, e)"
  by (cases cs) auto

lemma braceScan_min:
  "0 < bc \<Longrightarrow> n < length cs \<Longrightarrow> bal bc (take (Suc n) cs) = 0 \<Longrightarrow>
   \<exists>m\<le>n. braceScan cs i bc e0 = (0, i + m) \<and> bal bc (take (Suc m) cs) = 0
          \<and> (\<forall>k<m. 0 < bal bc (take (Suc k) cs))"
proof (induction cs arbitrary: i bc e0 n)
  case Nil
  then show ?case by simp
next
  case (Cons c cs)
  let ?bc' = "if c = CHR ''{'' then bc + 1 else if c = CHR ''}'' then bc - 1 else bc"
  have step: "bal bc (take (Suc k) (c # cs)) = bal ?bc' (take k cs)" for k
    using Cons.prems(1) by (auto simp: bal_def Count_def)
  have scan: "braceScan (c # cs) i bc e0 = braceScan cs (Suc i) ?bc' i"
    using Cons.prems(1) by simp
  show ?case
  proof (cases "?bc' = 0")
    case True
    have "braceScan (c # cs) i bc e0 = (0, i + 0)"
      unfolding scan True by (simp add: braceScan_zero)
    moreover have "bal bc (take (Suc 0) (c # cs)) = 0"
      unfolding step using True by (simp add: bal_def Count_def)
    ultimately show ?thesis by blast
  next
    case False
    then have pos: "0 < ?bc'" by simp
    have "n \<noteq> 0"
    proof
      assume "n = 0"
      with Cons.prems(3) have "bal ?bc' (take 0 cs) = 0" unfolding step[symmetric] by simp
      with False show False by (simp add: bal_def Count_def)
    qed
    then obtain n' where n': "n = Suc n'" by (cases n) auto
    with Cons.prems have "n' < length cs" "bal ?bc' (take (Suc n') cs) = 0"
      unfolding step[symmetric] by auto
    from Cons.IH[OF pos this, of "Suc i" i] obtain m where m: "m \<le> n'"
      "braceScan cs (Suc i) ?bc' i = (0, Suc i + m)" "bal ?bc' (take (Suc m) cs) = 0"
      "\<forall>k<m. 0 < bal ?bc' (take (Suc k) cs)" by blast
    have "\<forall>k<Suc m. 0 < bal bc (take (Suc k) (c # cs))"
    proof (intro allI impI)
      fix k assume "k < Suc m"
      show "0 < bal bc (take (Suc k) (c # cs))"
      proof (cases k)
        case 0
        with pos show ?thesis unfolding step by (simp add: bal_def Count_def)
      next
        case (Suc k')
        with \<open>k < Suc m\<close> m(4) show ?thesis unfolding step by simp
      qed
    qed
    moreover have "braceScan (c # cs) i bc e0 = (0, i + Suc m)" unfolding scan m(2) by simp
    moreover have "bal bc (take (Suc (Suc m)) (c # cs)) = 0" unfolding step by (rule m(3))
    moreover have "Suc m \<le> n" using m(1) n' by simp
    ultimately show ?thesis by blast
  qed
qed

lemma balanceAt_bal:
  "bodyStart \<le> j \<Longrightarrow> balanceAt content bodyStart j = bal 1 (take (Suc (j - bodyStart)) (drop bodyStart content))"
  by (simp add: balanceAt_def bal_def slice_def Suc_diff_le)

text \<open>
  C5 (as the code has it). For a text in which the block that opens at the first
  opening delimiter at or after the position is closed (the running balance reaches
  zero at some offset \<open>j\<close>), block-end location stops at the least offset \<open>e\<close> at which the
  running balance is exactly zero: the balance is positive at every offset before \<open>e\<close>.
  The balance counts every delimiter, also one inside a quoted string. A block closed
  at once (\<open>e = bodyStart\<close>) is reported as no block.
\<close>

theorem phpBlock_first_zero_balance:
  assumes "startPos \<le> length content"
    and "Index (drop startPos content) ''{'' = Some openBracePos"
    and "bodyStart = startPos + openBracePos + 1"
    and "bodyStart \<le> j" and "j < length content"
    and "balanceAt content bodyStart j = 0"
  shows "\<exists>e. bodyStart \<le> e \<and> e \<le> j \<and> balanceAt content bodyStart e = 0
             \<and> (\<forall>k. bodyStart \<le> k \<and> k < e \<longrightarrow> 0 < balanceAt content bodyStart k)
             \<and> phpBlock content startPos
                 = Inr (if e = bodyStart then None else Some (bodyStart, e))"
proof -
  let ?cs = "drop bodyStart content"
  let ?n = "j - bodyStart"
  have n: "?n < length ?cs" using assms(4,5) by simp
  have b: "bal 1 (take (Suc ?n) ?cs) = 0" using assms(4,6) by (simp add: balanceAt_bal)
  from braceScan_min[OF _ n b, of bodyStart bodyStart] obtain m where m: "m \<le> ?n"
    "braceScan ?cs bodyStart 1 bodyStart = (0, bodyStart + m)"
    "bal 1 (take (Suc m) ?cs) = 0" "\<forall>k<m. 0 < bal 1 (take (Suc k) ?cs)" by auto
  let ?e = "bodyStart + m"
  have 1: "bodyStart \<le> ?e" "?e \<le> j" using m(1) assms(4) by auto
  have 2: "balanceAt content bodyStart ?e = 0" using m(3) by (simp add: balanceAt_bal)
  have 3: "\<forall>k. bodyStart \<le> k \<and> k < ?e \<longrightarrow> 0 < balanceAt content bodyStart k"
  proof (intro allI impI)
    fix k assume k: "bodyStart \<le> k \<and> k < ?e"
    then have "k - bodyStart < m" by auto
    with m(4) have "0 < bal 1 (take (Suc (k - bodyStart)) ?cs)" by blast
    with k show "0 < balanceAt content bodyStart k" by (simp add: balanceAt_bal)
  qed
  have 4: "phpBlock content startPos = Inr (if ?e = bodyStart then None else Some (bodyStart, ?e))"
    using assms(1,2,3) m(2) by (simp add: phpBlock_def Let_def)
  from 1 2 3 4 show ?thesis by blast
qed

theorem phpBlock_first_zero_balance_witness:
  "\<exists>e. 14 \<le> e \<and> e \<le> 18 \<and> balanceAt phpQuoted 14 e = 0
       \<and> (\<forall>k. 14 \<le> k \<and> k < e \<longrightarrow> 0 < balanceAt phpQuoted 14 k)
       \<and> phpBlock phpQuoted 0 = Inr (if e = 14 then None else Some (14, e))"
proof -
  have 1: "0 \<le> length phpQuoted" by simp
  have 2: "Index (drop 0 phpQuoted) ''{'' = Some 13" by code_simp
  have 3: "(14 :: nat) = 0 + 13 + 1" by simp
  have 4: "(14 :: nat) \<le> 18" by simp
  have 5: "18 < length phpQuoted" by code_simp
  have 6: "balanceAt phpQuoted 14 18 = 0" by code_simp
  from phpBlock_first_zero_balance[OF 1 2 3 4 5 6] show ?thesis .
qed

text \<open>
  C5 as stated fails: in \<open>phpQuoted\<close> the closing delimiter at offset 18 stands between
  two double quotes and is judged inside a string, and the code ends the block there;
  a count that ignores it ends the block at offset 28.
\<close>

theorem phpBlock_counts_quoted_delimiter_counterexample:
  "phpBlock phpQuoted 0 = Inr (Some (14, 18)) \<and> isWithinString phpQuoted 18 = Inr True
   \<and> phpBlockSpec phpQuoted 0 = Inr (Some (14, 28))"
  by code_simp

section \<open>The cross-reference resolver: what is linked\<close>

lemma set_appendIfNotExists: "set (appendIfNotExists xs x) = insert x (set xs)"
  by (auto simp: appendIfNotExists_def)

lemma distinct_appendIfNotExists: "distinct xs \<Longrightarrow> distinct (appendIfNotExists xs x)"
  by (auto simp: appendIfNotExists_def)

lemma foldl_set:
  assumes "\<And>acc x. set (step acc x) = set acc \<union> C x"
  shows "set (foldl step acc xs) = set acc \<union> (\<Union>x\<in>set xs. C x)"
  by (induction xs arbitrary: acc) (auto simp: assms)

lemma foldl_distinct:
  assumes "\<And>acc x. distinct acc \<Longrightarrow> distinct (step acc x)" and "distinct acc"
  shows "distinct (foldl step acc xs)"
  using assms(2) by (induction xs arbitrary: acc) (auto simp: assms(1))

lemma registered_iff: "registered fs f = (f \<in> fst ` set fs)"
  by (simp add: registered_def map_of_eq_None_iff)

lemma enumerates_keys: "enumerates fs xs \<Longrightarrow> fst ` set xs = {f. registered fs f}"
  by (auto simp: enumerates_def registered_iff)

lemma set_eventStep:
  "set (eventStep fs acc kv)
   = set acc \<union> {f. HasPrefix (fst kv) ''on'' \<and> Contains (snd kv) ''(''
                    \<and> eventFuncName (snd kv) = Some f \<and> registered fs f}"
  by (cases kv) (auto simp: eventStep_def set_appendIfNotExists split: option.splits)

lemma set_exactStep:
  "set (exactStep fs attrs key acc) = set acc \<union> {f. map_of attrs key = Some f \<and> registered fs f}"
  by (auto simp: exactStep_def set_appendIfNotExists split: option.splits)

lemma set_actionStep:
  "set (actionStep toLower sn acc f) = set acc \<union> {g. g = f \<and> actionMatches toLower sn f}"
  by (auto simp: actionStep_def set_appendIfNotExists)

lemma set_hxFuncStep:
  "set (hxFuncStep toLower lp acc f) = set acc \<union> {g. g = f \<and> hxMatches toLower lp f}"
  by (auto simp: hxFuncStep_def set_appendIfNotExists)

lemma set_hxStep:
  "set (hxStep toLower orders acc kv)
   = set acc \<union> {f. HasPrefix (fst kv) ''hx-'' \<and> Contains (snd kv) ''/''
                    \<and> f \<in> fst ` set (roHxFuncs orders (fst kv))
                    \<and> hxMatches toLower (last (Split (snd kv) (CHR ''/''))) f}"
  by (cases kv) (auto simp: hxStep_def foldl_set[where C="\<lambda>f. {g. g = f \<and> hxMatches toLower lp f}" for lp, OF set_hxFuncStep])

lemma set_findLinkedFunctions:
  assumes "validOrders element allFunctions orders"
  shows "set (findLinkedFunctions toLower orders element allFunctions)
         = linkedSet toLower element allFunctions"
proof -
  from assms have ev: "set (roEvent orders) = set (heAttributes element)"
    and hx: "set (roHx orders) = set (heAttributes element)"
    and ac: "fst ` set (roAction orders) = {f. registered allFunctions f}"
    and hf: "\<And>key. fst ` set (roHxFuncs orders key) = {f. registered allFunctions f}"
    by (auto simp: validOrders_def enumerates_keys) (auto simp: enumerates_def)
  let ?l1 = "foldl (eventStep allFunctions) [] (roEvent orders)"
  let ?l2 = "exactStep allFunctions (heAttributes element) ''data-function'' ?l1"
  let ?l3 = "exactStep allFunctions (heAttributes element) ''onclick'' ?l2"
  let ?l4 = "(case map_of (heAttributes element) ''action'' of
                       None \<Rightarrow> ?l3
                     | Some action \<Rightarrow>
                         if isPhpAction action
                         then foldl (actionStep toLower (scriptNameOf action)) ?l3
                                (map fst (roAction orders))
                         else ?l3)"
  have s1: "set ?l1 = {f. registered allFunctions f \<and> (\<exists>(key, v) \<in> set (heAttributes element).
             HasPrefix key ''on'' \<and> Contains v ''('' \<and> eventFuncName v = Some f)}"
    unfolding foldl_set[where step="eventStep allFunctions", OF set_eventStep] ev by auto
  have s3: "set ?l3 = set ?l1 \<union> {f. registered allFunctions f \<and>
      (map_of (heAttributes element) ''data-function'' = Some f
          \<or> map_of (heAttributes element) ''onclick'' = Some f)}"
    unfolding set_exactStep by auto
  have s4: "set ?l4 = set ?l3 \<union> {f. registered allFunctions f \<and>
     (\<exists>action. map_of (heAttributes element) ''action'' = Some action
                \<and> isPhpAction action \<and> actionMatches toLower (scriptNameOf action) f)}"
  proof (cases "map_of (heAttributes element) ''action''")
    case None
    then show ?thesis by simp
  next
    case (Some action)
    show ?thesis
    proof (cases "isPhpAction action")
      case True
      have "set (foldl (actionStep toLower (scriptNameOf action)) ?l3 (map fst (roAction orders)))
            = set ?l3 \<union> (\<Union>f\<in>set (map fst (roAction orders)). {g. g = f \<and> actionMatches toLower (scriptNameOf action) f})"
        by (rule foldl_set) (rule set_actionStep)
      also have "\<dots> = set ?l3 \<union> {f. registered allFunctions f \<and> actionMatches toLower (scriptNameOf action) f}"
        using ac by auto
      finally show ?thesis using Some True by simp
    next
      case False
      with Some show ?thesis by simp
    qed
  qed
  have s5: "set (foldl (hxStep toLower orders) ?l4 (roHx orders))
     = set ?l4 \<union> {f. registered allFunctions f \<and> (\<exists>(key, v) \<in> set (heAttributes element).
                HasPrefix key ''hx-'' \<and> Contains v ''/''
                \<and> hxMatches toLower (last (Split v (CHR ''/''))) f)}"
    unfolding foldl_set[where step="hxStep toLower orders", OF set_hxStep] hx hf by auto
  have "set (findLinkedFunctions toLower orders element allFunctions)
        = set (foldl (hxStep toLower orders) ?l4 (roHx orders))"
    by (simp add: findLinkedFunctions_def Let_def)
  also note s5
  finally show ?thesis unfolding s4 s3 s1 linkedSet_def by blast
qed

lemma distinct_eventStep: "distinct acc \<Longrightarrow> distinct (eventStep fs acc kv)"
  by (cases kv) (auto simp: eventStep_def distinct_appendIfNotExists split: option.splits)

lemma distinct_exactStep: "distinct acc \<Longrightarrow> distinct (exactStep fs attrs key acc)"
  by (auto simp: exactStep_def distinct_appendIfNotExists split: option.splits)

lemma distinct_actionStep: "distinct acc \<Longrightarrow> distinct (actionStep toLower sn acc f)"
  by (auto simp: actionStep_def distinct_appendIfNotExists)

lemma distinct_hxFuncStep: "distinct acc \<Longrightarrow> distinct (hxFuncStep toLower lp acc f)"
  by (auto simp: hxFuncStep_def distinct_appendIfNotExists)

lemma distinct_hxStep: "distinct acc \<Longrightarrow> distinct (hxStep toLower orders acc kv)"
  by (cases kv) (auto simp: hxStep_def intro: foldl_distinct distinct_hxFuncStep)

lemma distinct_findLinkedFunctions:
  "distinct (findLinkedFunctions toLower orders element allFunctions)"
  unfolding findLinkedFunctions_def Let_def
  by (intro foldl_distinct distinct_hxStep)
     (auto split: option.splits intro!: foldl_distinct distinct_actionStep distinct_exactStep distinct_eventStep)

lemma saveOrders_valid:
  "validOrders saveForm saveRegistry (ordersOf saveForm saveRegistry)"
  "validOrders saveForm saveRegistry (ordersOf saveForm (rev saveRegistry))"
  by (auto simp: validOrders_def enumerates_def ordersOf_def saveForm_def saveRegistry_def)

text \<open>
  C1 (as the code has it). For a fixed registry and a fixed element, two evaluations of
  the resolver return lists without duplicates that hold the same names: the lists are
  equal up to the order of their entries, which follows the order in which the maps
  are enumerated.
\<close>

theorem findLinkedFunctions_same_names:
  assumes "validOrders element allFunctions orders1"
    and "validOrders element allFunctions orders2"
  shows "set (findLinkedFunctions toLower orders1 element allFunctions)
           = set (findLinkedFunctions toLower orders2 element allFunctions)
         \<and> distinct (findLinkedFunctions toLower orders1 element allFunctions)
         \<and> distinct (findLinkedFunctions toLower orders2 element allFunctions)
         \<and> length (findLinkedFunctions toLower orders1 element allFunctions)
             = length (findLinkedFunctions toLower orders2 element allFunctions)"
proof -
  have s: "set (findLinkedFunctions toLower orders1 element allFunctions)
           = set (findLinkedFunctions toLower orders2 element allFunctions)"
    by (simp add: set_findLinkedFunctions assms)
  have d: "distinct (findLinkedFunctions toLower orders1 element allFunctions)"
    "distinct (findLinkedFunctions toLower orders2 element allFunctions)"
    by (rule distinct_findLinkedFunctions)+
  from s d have "length (findLinkedFunctions toLower orders1 element allFunctions)
             = length (findLinkedFunctions toLower orders2 element allFunctions)"
    by (metis distinct_card)
  with s d show ?thesis by blast
qed

theorem findLinkedFunctions_same_names_witness:
  "set (findLinkedFunctions asciiLower (ordersOf saveForm saveRegistry) saveForm saveRegistry)
     = set (findLinkedFunctions asciiLower (ordersOf saveForm (rev saveRegistry)) saveForm saveRegistry)
   \<and> length (findLinkedFunctions asciiLower (ordersOf saveForm saveRegistry) saveForm saveRegistry)
     = length (findLinkedFunctions asciiLower (ordersOf saveForm (rev saveRegistry)) saveForm saveRegistry)"
  using findLinkedFunctions_same_names[OF saveOrders_valid, of asciiLower] by blast

text \<open>
  C1 as stated fails: for the form that posts to \<open>save.php\<close> and the registry holding
  \<open>save\<close> and \<open>save_draft\<close>, two enumerations of the same registry give the two names in
  opposite orders.
\<close>

theorem findLinkedFunctions_order_counterexample:
  "validOrders saveForm saveRegistry (ordersOf saveForm saveRegistry)
   \<and> validOrders saveForm saveRegistry (ordersOf saveForm (rev saveRegistry))
   \<and> findLinkedFunctions asciiLower (ordersOf saveForm saveRegistry) saveForm saveRegistry
       = [''save'', ''save_draft'']
   \<and> findLinkedFunctions asciiLower (ordersOf saveForm (rev saveRegistry)) saveForm saveRegistry
       = [''save_draft'', ''save'']"
proof -
  have "findLinkedFunctions asciiLower (ordersOf saveForm saveRegistry) saveForm saveRegistry
       = [''save'', ''save_draft'']"
    by code_simp
  moreover have "findLinkedFunctions asciiLower (ordersOf saveForm (rev saveRegistry)) saveForm saveRegistry
       = [''save_draft'', ''save'']"
    by code_simp
  ultimately show ?thesis using saveOrders_valid by blast
qed

section \<open>The cross-reference resolver: the click handler\<close>

lemma eventFuncName_doThing: "eventFuncName ''doThing()'' = Some ''doThing''"
  by code_simp

lemma onclick_facts:
  "HasPrefix ''onclick'' ''on''" "Contains ''doThing()'' ''(''" "\<not> HasPrefix ''onclick'' ''hx-''"
  by code_simp+

lemma linkedSet_registered: "f \<in> linkedSet toLower element allFunctions \<Longrightarrow> registered allFunctions f"
  by (simp add: linkedSet_def)

lemma linkedSet_onclick:
  assumes "map_of (heAttributes element) ''onclick'' = Some ''doThing()''"
    and "registered allFunctions ''doThing''"
  shows "''doThing'' \<in> linkedSet toLower element allFunctions"
proof -
  from assms(1) have "(''onclick'', ''doThing()'') \<in> set (heAttributes element)"
    by (rule map_of_SomeD)
  then have "\<exists>(key, v) \<in> set (heAttributes element).
             HasPrefix key ''on'' \<and> Contains v ''('' \<and> eventFuncName v = Some ''doThing''"
    using onclick_facts eventFuncName_doThing by blast
  with assms(2) show ?thesis unfolding linkedSet_def by blast
qed

lemma linkedSet_only_onclick:
  assumes oc: "map_of (heAttributes element) ''onclick'' = Some ''doThing()''"
    and en: "enumerates (heAttributes element) xs"
    and no: "noOtherRule element allFunctions"
    and nr: "\<not> registered allFunctions ''doThing''"
  shows "linkedSet toLower element allFunctions = {}"
proof -
  from no have keys: "\<And>k v. (k, v) \<in> set (heAttributes element) \<Longrightarrow>
      k = ''onclick'' \<or> (\<not> HasPrefix k ''on'' \<and> \<not> HasPrefix k ''hx-''
                          \<and> k \<noteq> ''data-function'' \<and> k \<noteq> ''action'')"
    and nq: "\<not> registered allFunctions ''doThing()''"
    by (auto simp: noOtherRule_def list_all_iff)
  from oc have mem: "(''onclick'', ''doThing()'') \<in> set (heAttributes element)"
    by (rule map_of_SomeD)
  have val: "v = ''doThing()''" if "(''onclick'', v) \<in> set (heAttributes element)" for v
  proof -
    from en have "distinct (map fst xs)" "(''onclick'', v) \<in> set xs"
      "(''onclick'', ''doThing()'') \<in> set xs"
      using that mem by (auto simp: enumerates_def)
    then show ?thesis by (rule eq_key_imp_eq_value)
  qed
  have mo: "k \<noteq> ''onclick'' \<Longrightarrow> map_of (heAttributes element) k = Some v \<Longrightarrow>
      k \<noteq> ''data-function'' \<and> k \<noteq> ''action''" for k v
    using keys[of k v] by (auto dest: map_of_SomeD)
  show ?thesis
  proof (rule ccontr)
    assume "linkedSet toLower element allFunctions \<noteq> {}"
    then obtain f where f: "f \<in> linkedSet toLower element allFunctions" by blast
    then have reg: "registered allFunctions f" by (rule linkedSet_registered)
    from f consider
      (ev) k v where "(k, v) \<in> set (heAttributes element)" "HasPrefix k ''on''"
          "eventFuncName v = Some f"
      | (df) "map_of (heAttributes element) ''data-function'' = Some f"
      | (oc) "map_of (heAttributes element) ''onclick'' = Some f"
      | (ac) action where "map_of (heAttributes element) ''action'' = Some action"
      | (hx) k v where "(k, v) \<in> set (heAttributes element)" "HasPrefix k ''hx-''"
      unfolding linkedSet_def by blast
    then show False
    proof cases
      case ev
      with keys[of k v] have "k = ''onclick''" by blast
      with ev val have "v = ''doThing()''" by blast
      with ev eventFuncName_doThing have "f = ''doThing''" by simp
      with reg nr show False by simp
    next
      case df
      with mo[of "''data-function''" f] show False by simp
    next
      case oc
      with assms(1) have "f = ''doThing()''" by simp
      with reg nq show False by simp
    next
      case ac
      with mo[of "''action''" action] show False by simp
    next
      case hx
      with keys[of k v] onclick_facts(3) show False by blast
    qed
  qed
qed

text \<open>
  C8. For an element whose attribute \<open>onclick\<close> is \<open>doThing()\<close> and any registry, the
  resolver puts \<open>doThing\<close> in the list of linked functions exactly when \<open>doThing\<close> is
  registered; when it is not registered and no other rule applies, the list is empty.
\<close>

theorem onclick_linked_iff_registered:
  assumes "map_of (heAttributes element) ''onclick'' = Some ''doThing()''"
    and "validOrders element allFunctions orders"
  shows "(''doThing'' \<in> set (findLinkedFunctions toLower orders element allFunctions)
            \<longleftrightarrow> registered allFunctions ''doThing'')
         \<and> (\<not> registered allFunctions ''doThing'' \<and> noOtherRule element allFunctions
              \<longrightarrow> findLinkedFunctions toLower orders element allFunctions = [])"
proof -
  have s: "set (findLinkedFunctions toLower orders element allFunctions)
           = linkedSet toLower element allFunctions"
    using assms(2) by (rule set_findLinkedFunctions)
  from assms(2) have en: "enumerates (heAttributes element) (roEvent orders)"
    by (simp add: validOrders_def)
  have "''doThing'' \<in> linkedSet toLower element allFunctions
         \<longleftrightarrow> registered allFunctions ''doThing''"
    using linkedSet_registered linkedSet_onclick[OF assms(1)] by blast
  moreover have "findLinkedFunctions toLower orders element allFunctions = []"
    if "\<not> registered allFunctions ''doThing''" "noOtherRule element allFunctions"
    using linkedSet_only_onclick[OF assms(1) en that(2) that(1)] s by simp
  ultimately show ?thesis using s by blast
qed

lemma clickOrders_valid:
  "validOrders clickElement doThingRegistry (ordersOf clickElement doThingRegistry)"
  "validOrders clickElement saveRegistry (ordersOf clickElement saveRegistry)"
  by (auto simp: validOrders_def enumerates_def ordersOf_def clickElement_def doThingRegistry_def saveRegistry_def)

lemma click_onclick: "map_of (heAttributes clickElement) ''onclick'' = Some ''doThing()''"
  by (simp add: clickElement_def)

lemma click_unregistered:
  "\<not> registered saveRegistry ''doThing''" "noOtherRule clickElement saveRegistry"
  "registered doThingRegistry ''doThing''"
  by code_simp+

theorem onclick_linked_iff_registered_witness:
  "''doThing'' \<in> set (findLinkedFunctions asciiLower (ordersOf clickElement doThingRegistry)
                        clickElement doThingRegistry)
   \<and> findLinkedFunctions asciiLower (ordersOf clickElement saveRegistry) clickElement saveRegistry = []"
  using onclick_linked_iff_registered[OF click_onclick clickOrders_valid(1), of asciiLower]
    onclick_linked_iff_registered[OF click_onclick clickOrders_valid(2), of asciiLower]
    click_unregistered
  by blast

section \<open>The tree-based extractor: parse failures\<close>

lemma analyzeGoFiles_append:
  "analyzeGoFiles st (xs @ ys) = analyzeGoFiles (analyzeGoFiles st xs) ys"
  by (simp add: analyzeGoFiles_def)

lemma length_rsGoFiles_process: "length (rsGoFiles (processGoFile st f)) = Suc (length (rsGoFiles st))"
  by (simp add: processGoFile_def split: prod.splits)

lemma length_rsGoFiles:
  "length (rsGoFiles (analyzeGoFiles st fs)) = length (rsGoFiles st) + length fs"
  unfolding analyzeGoFiles_def
  by (induction fs arbitrary: st) (simp_all add: length_rsGoFiles_process)

lemma processGoFile_failure:
  "processGoFile st (filePath, Inl err)
   = st\<lparr>rsGoFiles := rsGoFiles st @ [emptyGoSummary filePath],
        rsOutput := rsOutput st @ [''Error parsing Go file '' @ filePath @ '': '' @ err]\<rparr>"
  by (simp add: processGoFile_def analyzeGoFile_def emptyGoSummary_def)

lemma processGoFile_frame:
  assumes "rsAllFunctions a = rsAllFunctions b" and "rsAllStructs a = rsAllStructs b"
  shows "\<exists>g out. rsGoFiles (processGoFile a f) = rsGoFiles a @ [g]
              \<and> rsGoFiles (processGoFile b f) = rsGoFiles b @ [g]
              \<and> rsOutput (processGoFile a f) = rsOutput a @ out
              \<and> rsOutput (processGoFile b f) = rsOutput b @ out
              \<and> rsAllFunctions (processGoFile a f) = rsAllFunctions (processGoFile b f)
              \<and> rsAllStructs (processGoFile a f) = rsAllStructs (processGoFile b f)"
  using assms by (simp add: processGoFile_def split: prod.splits)

lemma analyzeGoFiles_frame:
  assumes "rsAllFunctions a = rsAllFunctions b" and "rsAllStructs a = rsAllStructs b"
  shows "\<exists>gs outs. rsGoFiles (analyzeGoFiles a fs) = rsGoFiles a @ gs
              \<and> rsGoFiles (analyzeGoFiles b fs) = rsGoFiles b @ gs
              \<and> rsOutput (analyzeGoFiles a fs) = rsOutput a @ outs
              \<and> rsOutput (analyzeGoFiles b fs) = rsOutput b @ outs
              \<and> rsAllFunctions (analyzeGoFiles a fs) = rsAllFunctions (analyzeGoFiles b fs)
              \<and> rsAllStructs (analyzeGoFiles a fs) = rsAllStructs (analyzeGoFiles b fs)"
  using assms
proof (induction fs arbitrary: a b)
  case Nil
  then show ?case by (simp add: analyzeGoFiles_def)
next
  case (Cons f fs)
  from processGoFile_frame[OF Cons.prems, of f] obtain g out where
    p: "rsGoFiles (processGoFile a f) = rsGoFiles a @ [g]"
       "rsGoFiles (processGoFile b f) = rsGoFiles b @ [g]"
       "rsOutput (processGoFile a f) = rsOutput a @ out"
       "rsOutput (processGoFile b f) = rsOutput b @ out"
       "rsAllFunctions (processGoFile a f) = rsAllFunctions (processGoFile b f)"
       "rsAllStructs (processGoFile a f) = rsAllStructs (processGoFile b f)" by blast
  from Cons.IH[OF p(5,6)] obtain gs outs where
    q: "rsGoFiles (analyzeGoFiles (processGoFile a f) fs) = rsGoFiles (processGoFile a f) @ gs"
       "rsGoFiles (analyzeGoFiles (processGoFile b f) fs) = rsGoFiles (processGoFile b f) @ gs"
       "rsOutput (analyzeGoFiles (processGoFile a f) fs) = rsOutput (processGoFile a f) @ outs"
       "rsOutput (analyzeGoFiles (processGoFile b f) fs) = rsOutput (processGoFile b f) @ outs"
       "rsAllFunctions (analyzeGoFiles (processGoFile a f) fs) = rsAllFunctions (analyzeGoFiles (processGoFile b f) fs)"
       "rsAllStructs (analyzeGoFiles (processGoFile a f) fs) = rsAllStructs (analyzeGoFiles (processGoFile b f) fs)"
    by blast
  have "rsGoFiles (analyzeGoFiles a (f # fs)) = rsGoFiles a @ (g # gs)"
       "rsGoFiles (analyzeGoFiles b (f # fs)) = rsGoFiles b @ (g # gs)"
       "rsOutput (analyzeGoFiles a (f # fs)) = rsOutput a @ (out @ outs)"
       "rsOutput (analyzeGoFiles b (f # fs)) = rsOutput b @ (out @ outs)"
       "rsAllFunctions (analyzeGoFiles a (f # fs)) = rsAllFunctions (analyzeGoFiles b (f # fs))"
       "rsAllStructs (analyzeGoFiles a (f # fs)) = rsAllStructs (analyzeGoFiles b (f # fs))"
    using p q by (simp_all add: analyzeGoFiles_def)
  then show ?case by blast
qed

text \<open>
  C9. When the parse of a file fails, the tree-based extractor returns a summary that
  holds the file path and nothing else (no variable, function, control-flow node,
  struct, interface or import), it reports one diagnostic line, and the run goes on:
  every file still has its summary, the summaries of the other files and both
  registries are what they are in a run without the failing file.
\<close>

theorem parse_failure_contained:
  "fst (analyzeGoFile filePath (Inl err) allStructs)
     = \<lparr>gsFilePath = filePath, gsVariables = [], gsFunctions = [], gsControlFlows = [],
        gsStructs = [], gsInterfaces = [], gsImports = []\<rparr>
   \<and> snd (analyzeGoFile filePath (Inl err) allStructs)
     = (allStructs, [''Error parsing Go file '' @ filePath @ '': '' @ err])
   \<and> rsGoFiles (analyzeGoFiles st (before @ (filePath, Inl err) # after))
     = take (length (rsGoFiles st) + length before) (rsGoFiles (analyzeGoFiles st (before @ after)))
       @ emptyGoSummary filePath
       # drop (length (rsGoFiles st) + length before) (rsGoFiles (analyzeGoFiles st (before @ after)))
   \<and> length (rsGoFiles (analyzeGoFiles st (before @ (filePath, Inl err) # after)))
     = length (rsGoFiles st) + length before + 1 + length after
   \<and> rsAllFunctions (analyzeGoFiles st (before @ (filePath, Inl err) # after))
     = rsAllFunctions (analyzeGoFiles st (before @ after))
   \<and> rsAllStructs (analyzeGoFiles st (before @ (filePath, Inl err) # after))
     = rsAllStructs (analyzeGoFiles st (before @ after))
   \<and> (''Error parsing Go file '' @ filePath @ '': '' @ err)
       \<in> set (rsOutput (analyzeGoFiles st (before @ (filePath, Inl err) # after)))"
proof -
  let ?s1 = "analyzeGoFiles st before"
  let ?a = "processGoFile ?s1 (filePath, Inl err)"
  let ?d = "''Error parsing Go file '' @ filePath @ '': '' @ err"
  have run1: "analyzeGoFiles st (before @ (filePath, Inl err) # after) = analyzeGoFiles ?a after"
    by (simp add: analyzeGoFiles_def)
  have run2: "analyzeGoFiles st (before @ after) = analyzeGoFiles ?s1 after"
    by (rule analyzeGoFiles_append)
  have a: "rsGoFiles ?a = rsGoFiles ?s1 @ [emptyGoSummary filePath]"
    "rsOutput ?a = rsOutput ?s1 @ [?d]"
    "rsAllFunctions ?a = rsAllFunctions ?s1" "rsAllStructs ?a = rsAllStructs ?s1"
    by (simp_all add: processGoFile_failure)
  from analyzeGoFiles_frame[OF a(3,4), of after] obtain gs outs where
    f: "rsGoFiles (analyzeGoFiles ?a after) = rsGoFiles ?a @ gs"
       "rsGoFiles (analyzeGoFiles ?s1 after) = rsGoFiles ?s1 @ gs"
       "rsOutput (analyzeGoFiles ?a after) = rsOutput ?a @ outs"
       "rsAllFunctions (analyzeGoFiles ?a after) = rsAllFunctions (analyzeGoFiles ?s1 after)"
       "rsAllStructs (analyzeGoFiles ?a after) = rsAllStructs (analyzeGoFiles ?s1 after)"
    by blast
  have n: "length (rsGoFiles ?s1) = length (rsGoFiles st) + length before"
    by (rule length_rsGoFiles)
  have 1: "fst (analyzeGoFile filePath (Inl err) allStructs)
     = \<lparr>gsFilePath = filePath, gsVariables = [], gsFunctions = [], gsControlFlows = [],
        gsStructs = [], gsInterfaces = [], gsImports = []\<rparr>"
    by (simp add: analyzeGoFile_def emptyGoSummary_def)
  have 2: "snd (analyzeGoFile filePath (Inl err) allStructs) = (allStructs, [?d])"
    by (simp add: analyzeGoFile_def)
  have 3: "rsGoFiles (analyzeGoFiles st (before @ (filePath, Inl err) # after))
     = take (length (rsGoFiles st) + length before) (rsGoFiles (analyzeGoFiles st (before @ after)))
       @ emptyGoSummary filePath
       # drop (length (rsGoFiles st) + length before) (rsGoFiles (analyzeGoFiles st (before @ after)))"
    unfolding run1 run2 f(1,2) a(1) n[symmetric] by simp
  have 4: "length (rsGoFiles (analyzeGoFiles st (before @ (filePath, Inl err) # after)))
     = length (rsGoFiles st) + length before + 1 + length after"
    by (simp add: length_rsGoFiles)
  have 5: "rsAllFunctions (analyzeGoFiles st (before @ (filePath, Inl err) # after))
     = rsAllFunctions (analyzeGoFiles st (before @ after))"
    unfolding run1 run2 by (rule f(4))
  have 6: "rsAllStructs (analyzeGoFiles st (before @ (filePath, Inl err) # after))
     = rsAllStructs (analyzeGoFiles st (before @ after))"
    unfolding run1 run2 by (rule f(5))
  have 7: "?d \<in> set (rsOutput (analyzeGoFiles st (before @ (filePath, Inl err) # after)))"
    unfolding run1 f(3) a(2) by simp
  from 1 2 3 4 5 6 7 show ?thesis by blast
qed

section \<open>The tree-based extractor: methods and their types\<close>

text \<open>
  C2 fails on the code. In one file, the method \<open>Bar\<close> declared after its struct type
  \<open>Foo\<close> ends in the method list of \<open>Foo\<close>, in the summary and in the registry; declared
  before the type it is lost in both, because the registry has no entry for \<open>Foo\<close> when
  the method is visited and the type is then registered with no method. The same holds
  across two files processed in either order.
\<close>

theorem analyzeGoFile_method_before_type_dropped:
  "methodNames (gsStructs (fst (analyzeGoFile ''a.go'' (Inr typeFirst) Map.empty)))
     = [(''Foo'', [''Bar''])]
   \<and> methodNames (gsStructs (fst (analyzeGoFile ''a.go'' (Inr methodFirst) Map.empty)))
     = [(''Foo'', [])]
   \<and> registryMethodNames
         (rsAllStructs (analyzeGoFiles initialState [(''a.go'', Inr typeFirst)])) ''Foo''
     = Some [''Bar'']
   \<and> registryMethodNames
         (rsAllStructs (analyzeGoFiles initialState [(''a.go'', Inr methodFirst)])) ''Foo''
     = Some []
   \<and> registryMethodNames
         (rsAllStructs (analyzeGoFiles initialState
            [(''t.go'', Inr typeOnly), (''m.go'', Inr methodOnly)])) ''Foo''
     = Some [''Bar'']
   \<and> registryMethodNames
         (rsAllStructs (analyzeGoFiles initialState
            [(''m.go'', Inr methodOnly), (''t.go'', Inr typeOnly)])) ''Foo''
     = Some []"
  by code_simp

section \<open>The delimiter-scoped extractor on Scenario A\<close>

text \<open>
  C7 (as the code has it). For the text \<open>class Foo { public function bar($x) { baz(); } }\<close>
  the extractor produces exactly one aggregate type, named \<open>Foo\<close>, with no field and one
  method \<open>bar\<close>, whose single parameter is named \<open>$x\<close> (the sigil is part of the name) and
  whose call list is \<open>baz\<close>.
\<close>

theorem phpClasses_scenarioA:
  "phpClasses scenarioA =
     Inr [\<lparr>stName = ''Foo'', stFields = [],
           stMethods = [\<lparr>fnName = ''bar'',
                          fnArgs = [\<lparr>vName = ''$x'', vType = ''mixed'',
                                     vScope = ''parameter'', vLine = 1\<rparr>],
                          fnReturns = [], fnReceiver = ''Foo'', fnLine = 1,
                          fnCalls = [''baz'']\<rparr>],
           stLine = 1\<rparr>]"
  by code_simp

text \<open>C7 as stated fails: the parameter of \<open>bar\<close> is not named \<open>x\<close>.\<close>

theorem phpClasses_scenarioA_parameter_counterexample:
  "map (\<lambda>c. map (\<lambda>m. map vName (fnArgs m)) (stMethods c)) (projr (phpClasses scenarioA))
   \<noteq> [[[''x'']]]"
  by code_simp

section \<open>Runtime failures of the indentation-scoped extractor\<close>

text \<open>
  C4 fails on the code. For the file \<open>pyShortDef\<close>, whose first signature ends at offset
  8, the loop "Parse functions" reaches \<open>extractPythonReturnType\<close> with \<open>funcEnd = 8\<close> and the
  slice \<open>content[funcEnd-20:...]\<close> panics. For the text \<open>pyShortLine\<close>, the field loop of
  the class reaches \<open>isPythonWithinClass\<close> at offset 21, where the line \<open>ab\<close>, shorter than
  five bytes and less indented than the position, is sliced with \<open>[:5]\<close>.
\<close>

theorem python_extractor_slice_panics:
  "extractPythonReturnType pyShortDef 8 = Inl SliceOutOfRange
   \<and> pythonFunctions pyShortDef = Inl SliceOutOfRange
   \<and> isPythonWithinClass pyShortLine 21 = Inl SliceOutOfRange
   \<and> pythonClassFields pyShortLine = Inl SliceOutOfRange"
  by code_simp

section \<open>Nested control flow\<close>


















































end
